theory Spec2Isabelle
  imports Complex_Main "HOL-Library.Multiset"
begin

section \<open>Tensors, errors and the conventions of the embedding\<close>

text \<open>
  The program is \<^verbatim>\<open>spender/model.py\<close>: a dense block (\<^verbatim>\<open>MLP\<close>), an activation
  (\<^verbatim>\<open>SpeculatorActivation\<close>), an attention-pooling encoder (\<^verbatim>\<open>SpectrumEncoder\<close>), a
  redshift and instrument aware decoder (\<^verbatim>\<open>SpectrumDecoder\<close>) and their composition
  (\<^verbatim>\<open>BaseAutoencoder\<close>, \<^verbatim>\<open>SpectrumAutoencoder\<close>).

  Conventions.
  \<^item> A tensor holds real numbers (the exact arithmetic that the floats approximate). A
    batch of shape \<open>(N, L)\<close> is a list of \<open>N\<close> rows, a feature map of shape \<open>(N, C, P)\<close>
    a list of \<open>N\<close> samples, each a list of \<open>C\<close> channels of \<open>P\<close> positions.
  \<^item> Every Python exception is a value of \<open>error\<close>, and a function that can raise
    returns \<open>error + 'a\<close> with \<open>Inl\<close> for the exception. \<open>NotANumber\<close> is not an
    exception: it marks a result that torch returns as \<^verbatim>\<open>nan\<close> (a division of zero by
    zero bins), which a real number cannot hold.
  \<^item> The layers of the torch library whose numerics are not part of this program
    (\<^verbatim>\<open>Conv1d\<close>, \<^verbatim>\<open>InstanceNorm1d\<close>, \<^verbatim>\<open>MaxPool1d\<close>) and the third-party routine
    \<^verbatim>\<open>Interp1d\<close> are parameters of the model, collected in the record \<open>torch_lib\<close>. The
    three layers act on one sample at a time, as the library documents.
  \<^item> The values the library draws at random are parameters as well: the initial weights
    of a \<^verbatim>\<open>Linear\<close> layer (\<open>theta\<close>) and the Bernoulli draws of every \<^verbatim>\<open>Dropout\<close>
    (\<open>rng\<close>, one family of draws per dropout layer, sample and element).
  \<^item> \<open>training\<close> is the mode flag of \<^verbatim>\<open>nn.Module\<close>; one flag stands for the whole
    model, as \<^verbatim>\<open>train()\<close> and \<^verbatim>\<open>eval()\<close> set it.
\<close>

datatype error =
    AssertionError | AttributeError | TypeError | ValueError | IndexError
  | RuntimeError | NotANumber

type_synonym vec = "real list"
type_synonym mat = "real list list"
type_synonym fmaps = "real list list list"

definition bindE :: "error + 'a \<Rightarrow> ('a \<Rightarrow> error + 'b) \<Rightarrow> error + 'b" where
  "bindE r f = (case r of Inl e \<Rightarrow> Inl e | Inr v \<Rightarrow> f v)"

text \<open>A per-sample operation over the batch axis; the first exception ends the call.\<close>

fun traverse :: "('a \<Rightarrow> error + 'b) \<Rightarrow> 'a list \<Rightarrow> error + 'b list" where
  "traverse f [] = Inr []"
| "traverse f (x # xs) =
     bindE (f x) (\<lambda>y. bindE (traverse f xs) (\<lambda>ys. Inr (y # ys)))"

definition enumerate0 :: "'a list \<Rightarrow> (nat \<times> 'a) list" where
  "enumerate0 xs = zip [0..<length xs] xs"

text \<open>
  Broadcasting of a binary operation along one axis, as torch does it: the sizes are
  equal, or one of them is 1 and is repeated; anything else raises.
\<close>

definition broadcast ::
  "('a \<Rightarrow> 'b \<Rightarrow> error + 'c) \<Rightarrow> 'a list \<Rightarrow> 'b list \<Rightarrow> error + 'c list" where
  "broadcast f xs ys =
     (if length xs = length ys then traverse (\<lambda>(x, y). f x y) (zip xs ys)
      else if length xs = 1 then traverse (\<lambda>y. f (hd xs) y) ys
      else if length ys = 1 then traverse (\<lambda>x. f x (hd ys)) xs
      else Inl RuntimeError)"

definition ew1 :: "(real \<Rightarrow> real \<Rightarrow> real) \<Rightarrow> vec \<Rightarrow> vec \<Rightarrow> error + vec" where
  "ew1 g = broadcast (\<lambda>a b. Inr (g a b))"

definition ew2 :: "(real \<Rightarrow> real \<Rightarrow> real) \<Rightarrow> mat \<Rightarrow> mat \<Rightarrow> error + mat" where
  "ew2 g = broadcast (ew1 g)"

section \<open>The dense block: \<^verbatim>\<open>MLP\<close>\<close>

record linear =
  in_features :: nat
  out_features :: nat
  weight :: "nat \<Rightarrow> nat \<Rightarrow> real"
  bias :: "nat \<Rightarrow> real"

text \<open>\<^verbatim>\<open>nn.Linear(n, m)\<close>, with the weights and biases it draws given as \<open>th\<close>.\<close>

definition nn_Linear :: "(nat \<Rightarrow> nat \<Rightarrow> real) \<times> (nat \<Rightarrow> real) \<Rightarrow> nat \<Rightarrow> nat \<Rightarrow> linear" where
  "nn_Linear th n m =
     \<lparr>in_features = n, out_features = m, weight = fst th, bias = snd th\<rparr>"

text \<open>One row through an affine layer; a row of the wrong width raises.\<close>

definition linear_forward :: "linear \<Rightarrow> vec \<Rightarrow> error + vec" where
  "linear_forward l x =
     (if length x \<noteq> in_features l then Inl RuntimeError
      else Inr (map (\<lambda>j. (\<Sum>i\<leftarrow>[0..<in_features l]. weight l j i * x ! i) + bias l j)
                  [0..<out_features l]))"

text \<open>
  The nonlinearities the program builds: \<^verbatim>\<open>nn.LeakyReLU()\<close>, \<^verbatim>\<open>nn.PReLU(n)\<close> with its
  \<open>n\<close> slopes, \<^verbatim>\<open>nn.Identity()\<close> and the program's own \<^verbatim>\<open>SpeculatorActivation\<close> with
  \<open>beta\<close>, \<open>gamma\<close> and \<^verbatim>\<open>plus_one\<close>.
\<close>

datatype activation =
    LeakyReLU
  | PReLU "real list"
  | Identity
  | SpeculatorActivation "real list" "real list" bool

text \<open>\<^verbatim>\<open>nn.PReLU(n)\<close> starts with \<open>n\<close> slopes of 0.25.\<close>

definition nn_PReLU :: "nat \<Rightarrow> activation" where
  "nn_PReLU n = PReLU (replicate n (1 / 4))"

definition leaky :: "real \<Rightarrow> real \<Rightarrow> real" where
  "leaky slope x = (if 0 \<le> x then x else slope * x)"

definition sigmoid :: "real \<Rightarrow> real" where
  "sigmoid x = 1 / (1 + exp (- x))"

text \<open>\<^verbatim>\<open>PReLU\<close> has one slope for all channels or one per channel.\<close>

definition prelu_channels :: "real list \<Rightarrow> 'a list \<Rightarrow> (real \<Rightarrow> 'a \<Rightarrow> 'a) \<Rightarrow> error + 'a list" where
  "prelu_channels w xs app =
     (if length w = 1 then Inr (map (app (hd w)) xs)
      else if length w \<noteq> length xs then Inl RuntimeError
      else Inr (map (\<lambda>(a, x). app a x) (zip w xs)))"

text \<open>
  \<^verbatim>\<open>SpeculatorActivation.forward\<close>:
  \<^verbatim>\<open>x = (self.gamma + (1 - self.gamma) * torch.sigmoid(self.beta * x)) * x\<close>, then
  \<^verbatim>\<open>x + 1\<close> if \<^verbatim>\<open>plus_one\<close>.
\<close>

definition SpeculatorActivation_forward :: "real list \<Rightarrow> real list \<Rightarrow> bool \<Rightarrow> vec \<Rightarrow> error + vec" where
  "SpeculatorActivation_forward beta gamma plus_one x =
     bindE (ew1 (*) beta x) (\<lambda>bx.
     bindE (ew1 (*) (map (\<lambda>g. 1 - g) gamma) (map sigmoid bx)) (\<lambda>t.
     bindE (ew1 (+) gamma t) (\<lambda>u.
     bindE (ew1 (*) u x) (\<lambda>y.
     Inr (if plus_one then map (\<lambda>v. v + 1) y else y)))))"

fun act_forward :: "activation \<Rightarrow> vec \<Rightarrow> error + vec" where
  "act_forward LeakyReLU x = Inr (map (leaky (1 / 100)) x)"
| "act_forward (PReLU w) x = prelu_channels w x leaky"
| "act_forward Identity x = Inr x"
| "act_forward (SpeculatorActivation beta gamma plus_one) x =
     SpeculatorActivation_forward beta gamma plus_one x"

text \<open>
  \<^verbatim>\<open>nn.Dropout(p)\<close> on one row: the identity outside training (and for \<open>p = 0\<close>);
  in training every element is kept with its draw and scaled by \<open>1 / (1 - p)\<close>.
\<close>

definition dropout_row :: "bool \<Rightarrow> real \<Rightarrow> (nat \<Rightarrow> bool) \<Rightarrow> vec \<Rightarrow> vec" where
  "dropout_row training p keep xs =
     (if \<not> training \<or> p = 0 then xs
      else map (\<lambda>(i, x). if keep i \<and> p < 1 then x / (1 - p) else 0) (enumerate0 xs))"

datatype layer = Linear linear | Act activation | Dropout real

type_synonym MLP = "layer list"

text \<open>
  The constructor \<^verbatim>\<open>nn.Dropout(p)\<close> raises for a \<open>p\<close> outside \<open>[0, 1]\<close>; the module it
  builds is its probability.
\<close>

definition nn_Dropout :: "real \<Rightarrow> error + real" where
  "nn_Dropout p = (if p < 0 \<or> 1 < p then Inl ValueError else Inr p)"

text \<open>
  \<^verbatim>\<open>MLP.__init__\<close>. One pass of the loop body
  \<^verbatim>\<open>layer.append(nn.Linear(n_[i], n_[i+1])); layer.append(act[i]); layer.append(nn.Dropout(p=dropout))\<close>:
\<close>

definition MLP_append ::
  "(nat \<Rightarrow> (nat \<Rightarrow> nat \<Rightarrow> real) \<times> (nat \<Rightarrow> real)) \<Rightarrow> nat list \<Rightarrow> activation list \<Rightarrow> real \<Rightarrow>
     layer list \<Rightarrow> nat \<Rightarrow> error + layer list" where
  "MLP_append theta ns act dropout layer i =
     bindE (nn_Dropout dropout) (\<lambda>d.
       Inr (layer @ [Linear (nn_Linear (theta i) (ns ! i) (ns ! (i + 1))), Act (act ! i),
                     Dropout d]))"

text \<open>
  The whole constructor: the default list, the assertion, then the loop over
  \<^verbatim>\<open>range(len(n_)-1)\<close> (the list \<^verbatim>\<open>n_\<close> is \<open>ns\<close> here).
\<close>

definition MLP_init ::
  "(nat \<Rightarrow> (nat \<Rightarrow> nat \<Rightarrow> real) \<times> (nat \<Rightarrow> real)) \<Rightarrow> nat \<Rightarrow> nat \<Rightarrow> nat list \<Rightarrow>
     activation list option \<Rightarrow> real \<Rightarrow> error + MLP" where
  "MLP_init theta n_in n_out n_hidden act dropout =
     (let act' = (case act of None \<Rightarrow> replicate (length n_hidden + 1) LeakyReLU | Some a \<Rightarrow> a)
      in if length act' \<noteq> length n_hidden + 1 then Inl AssertionError
         else let ns = [n_in] @ n_hidden @ [n_out]
              in foldl (\<lambda>layer i. bindE layer (\<lambda>ls. MLP_append theta ns act' dropout ls i))
                   (Inr []) [0..<length ns - 1])"

text \<open>
  The forward pass of \<^verbatim>\<open>nn.Sequential\<close> over a batch of rows. \<open>draws k n i\<close> is the
  draw of the module at position \<open>k\<close> for element \<open>i\<close> of sample \<open>n\<close>.
\<close>

fun layer_forward :: "bool \<Rightarrow> (nat \<Rightarrow> nat \<Rightarrow> bool) \<Rightarrow> layer \<Rightarrow> mat \<Rightarrow> error + mat" where
  "layer_forward training draw (Linear l) X = traverse (linear_forward l) X"
| "layer_forward training draw (Act a) X = traverse (act_forward a) X"
| "layer_forward training draw (Dropout p) X =
     Inr (map (\<lambda>(n, x). dropout_row training p (draw n) x) (enumerate0 X))"

fun MLP_forward :: "bool \<Rightarrow> (nat \<Rightarrow> nat \<Rightarrow> nat \<Rightarrow> bool) \<Rightarrow> nat \<Rightarrow> MLP \<Rightarrow> mat \<Rightarrow> error + mat" where
  "MLP_forward training draws k [] X = Inr X"
| "MLP_forward training draws k (l # ls) X =
     bindE (layer_forward training (draws k) l X) (MLP_forward training draws (Suc k) ls)"

section \<open>The library layers and the instrument\<close>

text \<open>
  \<^verbatim>\<open>nn.Conv1d(in_channels, out_channels, kernel_size, padding)\<close> and
  \<^verbatim>\<open>nn.MaxPool1d(kernel_size, padding)\<close> as the program configures them.
\<close>

record conv1d =
  in_channels :: nat
  out_channels :: nat
  kernel_size :: nat
  padding :: nat

record max_pool1d =
  pool_kernel_size :: nat
  pool_padding :: nat

text \<open>
  What the library computes: each layer maps the feature map of one sample (channels of
  positions) to a feature map or raises; \<^verbatim>\<open>InstanceNorm1d\<close> is given its number of
  features. \<^verbatim>\<open>Interp1d()(x, y, xnew)\<close> takes the grids \<open>x\<close> (one row, or one per sample),
  the batch \<open>y\<close> and the new grid.
\<close>

record torch_lib =
  Conv1d_forward :: "conv1d \<Rightarrow> mat \<Rightarrow> error + mat"
  InstanceNorm1d_forward :: "nat \<Rightarrow> mat \<Rightarrow> error + mat"
  MaxPool1d_forward :: "max_pool1d \<Rightarrow> mat \<Rightarrow> error + mat"
  Interp1d :: "mat \<Rightarrow> mat \<Rightarrow> vec \<Rightarrow> error + mat"

text \<open>
  The instrument is a collaborator: its observed grid, an optional line-spread function
  (here from a batch of spectra to a batch of spectra: the program wraps the call in
  \<^verbatim>\<open>unsqueeze(1)\<close> and \<^verbatim>\<open>squeeze(1)\<close>) and an optional calibration function of the
  observed grid and the batch. An instrument argument is \<^verbatim>\<open>None\<close>, \<^verbatim>\<open>False\<close> or an
  instrument.
\<close>

record instrument =
  wave_obs :: vec
  lsf :: "(mat \<Rightarrow> error + mat) option"
  calibration :: "(vec \<Rightarrow> mat \<Rightarrow> error + mat) option"

datatype instrument_arg = InstNone | InstFalse | Inst instrument

text \<open>The auxiliary features: \<^verbatim>\<open>None\<close>, \<^verbatim>\<open>False\<close> or a batch of rows.\<close>

datatype aux_arg = AuxNone | AuxFalse | Aux mat

text \<open>The redshift: \<^verbatim>\<open>None\<close>, a number, or a tensor with one redshift per sample.\<close>

datatype redshift = ZNone | ZScalar real | ZTensor vec

text \<open>The dropout layers of the model, which index the draws.\<close>

datatype site = Conv1 | Conv2 | Conv3 | EncoderMLP nat | DecoderMLP nat

type_synonym rng = "site \<Rightarrow> nat \<Rightarrow> nat \<Rightarrow> bool"

section \<open>The encoder: \<^verbatim>\<open>SpectrumEncoder\<close>\<close>

text \<open>One block \<^verbatim>\<open>nn.Sequential(conv, norm, act, drop)\<close> of \<^verbatim>\<open>_conv_blocks\<close>.\<close>

record conv_block =
  blk_conv :: conv1d
  blk_norm :: nat
  blk_act :: activation
  blk_drop :: real

record SpectrumEncoder =
  enc_instrument :: instrument_arg
  enc_n_latent :: nat
  enc_n_aux :: nat
  conv1 :: conv_block
  conv2 :: conv_block
  conv3 :: conv_block
  n_feature :: nat
  pool1 :: max_pool1d
  pool2 :: max_pool1d
  enc_mlp :: MLP

text \<open>
  \<^verbatim>\<open>_conv_blocks\<close>. One pass of its loop body; \<^verbatim>\<open>sizes[i]\<close> raises when \<open>sizes\<close> is
  shorter than \<open>filters\<close>.
\<close>

definition conv_blocks_append ::
  "nat list \<Rightarrow> nat list \<Rightarrow> real \<Rightarrow> conv_block list \<Rightarrow> nat \<Rightarrow> error + conv_block list" where
  "conv_blocks_append filters sizes dropout convs i =
     (let f_in = (if i = 0 then 1 else filters ! (i - 1));
          f = filters ! i
      in if length sizes \<le> i then Inl IndexError
         else let s = sizes ! i;
                  p = s div 2;
                  conv = \<lparr>in_channels = f_in, out_channels = f, kernel_size = s, padding = p\<rparr>
              in bindE (nn_Dropout dropout) (\<lambda>drop.
                   Inr (convs @ [\<lparr>blk_conv = conv, blk_norm = f, blk_act = nn_PReLU f,
                                  blk_drop = drop\<rparr>])))"

definition conv_blocks :: "nat list \<Rightarrow> nat list \<Rightarrow> real \<Rightarrow> error + conv_block list" where
  "conv_blocks filters sizes dropout =
     foldl (\<lambda>convs i. bindE convs (\<lambda>cs. conv_blocks_append filters sizes dropout cs i))
       (Inr []) [0..<length filters]"

text \<open>
  \<^verbatim>\<open>SpectrumEncoder.__init__\<close>. Unpacking the blocks into three names and the pools into
  two raises when the counts differ. \<open>theta\<close> gives the initial weights of the dense block.
\<close>

definition SpectrumEncoder_init ::
  "(nat \<Rightarrow> (nat \<Rightarrow> nat \<Rightarrow> real) \<times> (nat \<Rightarrow> real)) \<Rightarrow> instrument_arg \<Rightarrow> nat \<Rightarrow> nat list \<Rightarrow>
     activation list option \<Rightarrow> nat \<Rightarrow> real \<Rightarrow> error + SpectrumEncoder" where
  "SpectrumEncoder_init theta instr n_latent n_hidden act n_aux dropout =
     (let filters = [128, 256, 512];
          sizes = [5, 11, 21]
      in bindE (conv_blocks filters sizes dropout) (\<lambda>convs.
         case convs of
           [c1, c2, c3] \<Rightarrow>
             (let nf = last filters div 2
              in case map (\<lambda>s. \<lparr>pool_kernel_size = s, pool_padding = s div 2\<rparr>) (take 2 sizes) of
                   [p1, p2] \<Rightarrow>
                     (let act' = (case act of
                                    None \<Rightarrow> map nn_PReLU n_hidden @ [Identity]
                                  | Some a \<Rightarrow> a)
                      in bindE (MLP_init theta (nf + n_aux) n_latent n_hidden (Some act') dropout)
                           (\<lambda>m. Inr \<lparr>enc_instrument = instr, enc_n_latent = n_latent,
                                      enc_n_aux = n_aux, conv1 = c1, conv2 = c2, conv3 = c3,
                                      n_feature = nf, pool1 = p1, pool2 = p2, enc_mlp = m\<rparr>))
                 | _ \<Rightarrow> Inl ValueError)
         | _ \<Rightarrow> Inl ValueError))"

text \<open>
  The activation of a block acts on a feature map, whose channels are its rows. Only
  \<^verbatim>\<open>PReLU\<close> stands there; the other cases are written for completeness
  (\<^verbatim>\<open>SpeculatorActivation\<close> broadcasts along the last axis).
\<close>

fun act_forward_fmap :: "activation \<Rightarrow> mat \<Rightarrow> error + mat" where
  "act_forward_fmap LeakyReLU f = Inr (map (map (leaky (1 / 100))) f)"
| "act_forward_fmap (PReLU w) f = prelu_channels w f (\<lambda>a. map (leaky a))"
| "act_forward_fmap Identity f = Inr f"
| "act_forward_fmap (SpeculatorActivation beta gamma plus_one) f =
     traverse (SpeculatorActivation_forward beta gamma plus_one) f"

definition dropout_fmap :: "bool \<Rightarrow> real \<Rightarrow> (nat \<Rightarrow> bool) \<Rightarrow> mat \<Rightarrow> mat" where
  "dropout_fmap training p keep f =
     map (\<lambda>(c, row). dropout_row training p (\<lambda>t. keep (c * length row + t)) row) (enumerate0 f)"

definition conv_block_forward ::
  "torch_lib \<Rightarrow> bool \<Rightarrow> (nat \<Rightarrow> nat \<Rightarrow> bool) \<Rightarrow> conv_block \<Rightarrow> fmaps \<Rightarrow> error + fmaps" where
  "conv_block_forward lib training draw blk X =
     bindE (traverse (Conv1d_forward lib (blk_conv blk)) X) (\<lambda>X1.
     bindE (traverse (InstanceNorm1d_forward lib (blk_norm blk)) X1) (\<lambda>X2.
     bindE (traverse (act_forward_fmap (blk_act blk)) X2) (\<lambda>X3.
     Inr (map (\<lambda>(n, f). dropout_fmap training (blk_drop blk) (draw n) f) (enumerate0 X3)))))"

text \<open>
  \<^verbatim>\<open>torch.split(x, [C, C], dim=1)\<close> with \<^verbatim>\<open>C = x.shape[1] // 2\<close>, on one sample: the
  sizes must add up to the number of channels.
\<close>

definition split_half :: "mat \<Rightarrow> error + mat \<times> mat" where
  "split_half f =
     (let C = length f div 2
      in if C + C \<noteq> length f then Inl RuntimeError else Inr (take C f, drop C f))"

text \<open>\<^verbatim>\<open>_downsample\<close>: \<^verbatim>\<open>unsqueeze(1)\<close>, the three blocks with the two pools, the split.\<close>

definition downsample ::
  "torch_lib \<Rightarrow> bool \<Rightarrow> rng \<Rightarrow> SpectrumEncoder \<Rightarrow> mat \<Rightarrow> error + fmaps \<times> fmaps" where
  "downsample lib training draws enc x =
     bindE (conv_block_forward lib training (draws Conv1) (conv1 enc) (map (\<lambda>r. [r]) x)) (\<lambda>x1.
     bindE (traverse (MaxPool1d_forward lib (pool1 enc)) x1) (\<lambda>x2.
     bindE (conv_block_forward lib training (draws Conv2) (conv2 enc) x2) (\<lambda>x3.
     bindE (traverse (MaxPool1d_forward lib (pool2 enc)) x3) (\<lambda>x4.
     bindE (conv_block_forward lib training (draws Conv3) (conv3 enc) x4) (\<lambda>x5.
     bindE (traverse split_half x5) (\<lambda>ha.
     Inr (map fst ha, map snd ha)))))))"

text \<open>\<^verbatim>\<open>nn.Softmax(dim=-1)\<close> on one row of positions.\<close>

definition softmax :: "vec \<Rightarrow> vec" where
  "softmax r = map (\<lambda>v. exp v / (\<Sum>u\<leftarrow>r. exp u)) r"

text \<open>
  The test \<^verbatim>\<open>if ~self.training and a.requires_grad == True\<close> of \<^verbatim>\<open>forward\<close>: \<^verbatim>\<open>~\<close> is
  Python's bitwise complement, which takes the \<^verbatim>\<open>bool\<close> to an \<^verbatim>\<open>int\<close>, and \<^verbatim>\<open>and\<close> goes
  on to its second operand when the first is truthy (not zero). Whether \<open>a\<close> requires a
  gradient is decided by autograd and is an input here.
\<close>

definition py_invert :: "bool \<Rightarrow> int" where
  "py_invert b = - (if b then 1 else 0) - 1"

definition py_truthy :: "int \<Rightarrow> bool" where
  "py_truthy i = (i \<noteq> 0)"

definition attention_hook_registered :: "bool \<Rightarrow> bool \<Rightarrow> bool" where
  "attention_hook_registered training a_requires_grad =
     (if py_truthy (py_invert training) then a_requires_grad = True else False)"

text \<open>
  The first two statements of \<^verbatim>\<open>forward\<close>: \<^verbatim>\<open>h, a = self._downsample(x)\<close> and
  \<^verbatim>\<open>a = self.softmax(a)\<close>.
\<close>

definition SpectrumEncoder_attention ::
  "torch_lib \<Rightarrow> bool \<Rightarrow> rng \<Rightarrow> SpectrumEncoder \<Rightarrow> mat \<Rightarrow> error + fmaps \<times> fmaps" where
  "SpectrumEncoder_attention lib training draws enc x =
     bindE (downsample lib training draws enc x) (\<lambda>(h, a).
     Inr (h, map (map softmax) a))"

text \<open>\<^verbatim>\<open>torch.sum(h * a, dim=2)\<close> on one sample.\<close>

definition attend :: "mat \<times> mat \<Rightarrow> error + vec" where
  "attend ha = bindE (ew2 (*) (fst ha) (snd ha)) (\<lambda>m. Inr (map sum_list m))"

text \<open>\<^verbatim>\<open>torch.cat((x, aux), dim=-1)\<close>: the batch sizes must agree.\<close>

definition torch_cat :: "mat \<Rightarrow> mat \<Rightarrow> error + mat" where
  "torch_cat x aux =
     (if length x \<noteq> length aux then Inl RuntimeError
      else Inr (map (\<lambda>(r, v). r @ v) (zip x aux)))"

text \<open>
  \<^verbatim>\<open>SpectrumEncoder.forward\<close>. The result is the latent batch together with the side
  effect: whether the hook was registered on \<open>a\<close>.
\<close>

definition SpectrumEncoder_forward ::
  "torch_lib \<Rightarrow> bool \<Rightarrow> rng \<Rightarrow> bool \<Rightarrow> SpectrumEncoder \<Rightarrow> mat \<Rightarrow> aux_arg \<Rightarrow> error + mat \<times> bool" where
  "SpectrumEncoder_forward lib training draws a_requires_grad enc x aux =
     bindE (SpectrumEncoder_attention lib training draws enc x) (\<lambda>(h, a).
     let hook = attention_hook_registered training a_requires_grad
     in bindE (traverse attend (zip h a)) (\<lambda>x1.
        bindE (case aux of AuxNone \<Rightarrow> Inr x1 | AuxFalse \<Rightarrow> Inr x1 | Aux v \<Rightarrow> torch_cat x1 v) (\<lambda>x2.
        bindE (MLP_forward training (\<lambda>k. draws (EncoderMLP k)) 0 (enc_mlp enc) x2) (\<lambda>s.
        Inr (s, hook)))))"

section \<open>The decoder: \<^verbatim>\<open>SpectrumDecoder\<close>\<close>

record SpectrumDecoder =
  dec_mlp :: MLP
  dec_n_latent :: nat
  wave_rest :: vec

definition SpectrumDecoder_init ::
  "(nat \<Rightarrow> (nat \<Rightarrow> nat \<Rightarrow> real) \<times> (nat \<Rightarrow> real)) \<Rightarrow> vec \<Rightarrow> nat \<Rightarrow> nat list \<Rightarrow>
     activation list option \<Rightarrow> real \<Rightarrow> error + SpectrumDecoder" where
  "SpectrumDecoder_init theta wave n_latent n_hidden act dropout =
     bindE (MLP_init theta n_latent (length wave) n_hidden act dropout) (\<lambda>m.
     Inr \<lparr>dec_mlp = m, dec_n_latent = n_latent, wave_rest = wave\<rparr>)"

definition decode :: "bool \<Rightarrow> rng \<Rightarrow> SpectrumDecoder \<Rightarrow> mat \<Rightarrow> error + mat" where
  "decode training draws dec s =
     MLP_forward training (\<lambda>k. draws (DecoderMLP k)) 0 (dec_mlp dec) s"

text \<open>
  \<^verbatim>\<open>(self.wave_rest.unsqueeze(1) * (1 + z)).T\<close>: one row for a number, one row per sample
  for a tensor of redshifts; \<^verbatim>\<open>1 + None\<close> raises.
\<close>

definition wave_redshifted :: "vec \<Rightarrow> redshift \<Rightarrow> error + mat" where
  "wave_redshifted wave z =
     (case z of
        ZNone \<Rightarrow> Inl TypeError
      | ZScalar z0 \<Rightarrow> Inr [map (\<lambda>v. v * (1 + z0)) wave]
      | ZTensor zs \<Rightarrow> Inr (map (\<lambda>zn. map (\<lambda>v. v * (1 + zn)) wave) zs))"

text \<open>
  \<^verbatim>\<open>SpectrumDecoder.transform\<close>, statement by statement. \<^verbatim>\<open>instrument.lsf\<close> is read for
  every instrument argument, and \<^verbatim>\<open>None\<close> and \<^verbatim>\<open>False\<close> have no such attribute.
\<close>

definition transform ::
  "torch_lib \<Rightarrow> SpectrumDecoder \<Rightarrow> mat \<Rightarrow> instrument_arg \<Rightarrow> redshift \<Rightarrow> error + mat" where
  "transform lib dec spectrum_restframe instr z =
     bindE (wave_redshifted (wave_rest dec) z) (\<lambda>wr.
     let wobs = (case instr of Inst i \<Rightarrow> wave_obs i | _ \<Rightarrow> wave_rest dec)
     in bindE (Interp1d lib wr spectrum_restframe wobs) (\<lambda>spectrum.
        case instr of
          Inst i \<Rightarrow>
            bindE (case lsf i of None \<Rightarrow> Inr spectrum | Some f \<Rightarrow> f spectrum) (\<lambda>spectrum1.
            case calibration i of
              None \<Rightarrow> Inr spectrum1
            | Some c \<Rightarrow> c wobs spectrum1)
        | _ \<Rightarrow> Inl AttributeError))"

text \<open>\<^verbatim>\<open>SpectrumDecoder.forward\<close>: the transform is skipped when both are \<^verbatim>\<open>None\<close>.\<close>

definition SpectrumDecoder_forward ::
  "torch_lib \<Rightarrow> bool \<Rightarrow> rng \<Rightarrow> SpectrumDecoder \<Rightarrow> mat \<Rightarrow> instrument_arg \<Rightarrow> redshift \<Rightarrow> error + mat" where
  "SpectrumDecoder_forward lib training draws dec s instr z =
     bindE (decode training draws dec s) (\<lambda>spectrum.
     if instr \<noteq> InstNone \<or> z \<noteq> ZNone then transform lib dec spectrum instr z
     else Inr spectrum)"

section \<open>The composition: \<^verbatim>\<open>BaseAutoencoder\<close>\<close>

record BaseAutoencoder =
  encoder :: SpectrumEncoder
  decoder :: SpectrumDecoder

definition BaseAutoencoder_init ::
  "SpectrumEncoder \<Rightarrow> SpectrumDecoder \<Rightarrow> error + BaseAutoencoder" where
  "BaseAutoencoder_init enc dec =
     (if enc_n_latent enc = dec_n_latent dec then Inr \<lparr>encoder = enc, decoder = dec\<rparr>
      else Inl AssertionError)"

definition encode ::
  "torch_lib \<Rightarrow> bool \<Rightarrow> rng \<Rightarrow> bool \<Rightarrow> BaseAutoencoder \<Rightarrow> mat \<Rightarrow> aux_arg \<Rightarrow> error + mat" where
  "encode lib training draws a_requires_grad ae x aux =
     bindE (SpectrumEncoder_forward lib training draws a_requires_grad (encoder ae) x aux)
       (\<lambda>(s, hook). Inr s)"

text \<open>\<^verbatim>\<open>BaseAutoencoder.decode\<close> calls the decoder with its defaults.\<close>

definition BaseAutoencoder_decode ::
  "torch_lib \<Rightarrow> bool \<Rightarrow> rng \<Rightarrow> BaseAutoencoder \<Rightarrow> mat \<Rightarrow> error + mat" where
  "BaseAutoencoder_decode lib training draws ae x =
     SpectrumDecoder_forward lib training draws (decoder ae) x InstNone ZNone"

text \<open>
  \<^verbatim>\<open>_forward\<close>; the weights \<^verbatim>\<open>w\<close> are accepted and not used. \<open>s\<close> is the optional latent.
\<close>

definition forward3 ::
  "torch_lib \<Rightarrow> bool \<Rightarrow> rng \<Rightarrow> bool \<Rightarrow> BaseAutoencoder \<Rightarrow> mat \<Rightarrow> instrument_arg \<Rightarrow> redshift \<Rightarrow>
     mat option \<Rightarrow> aux_arg \<Rightarrow> error + mat \<times> mat \<times> mat" where
  "forward3 lib training draws a_requires_grad ae x instr z s aux =
     bindE (case s of None \<Rightarrow> encode lib training draws a_requires_grad ae x aux
                    | Some s0 \<Rightarrow> Inr s0) (\<lambda>s1.
     let instr1 = (case instr of InstNone \<Rightarrow> enc_instrument (encoder ae) | _ \<Rightarrow> instr)
     in bindE (BaseAutoencoder_decode lib training draws ae s1) (\<lambda>spectrum_restframe.
        bindE (transform lib (decoder ae) spectrum_restframe instr1 z) (\<lambda>spectrum_observed.
        Inr (s1, spectrum_restframe, spectrum_observed))))"

definition BaseAutoencoder_forward ::
  "torch_lib \<Rightarrow> bool \<Rightarrow> rng \<Rightarrow> bool \<Rightarrow> BaseAutoencoder \<Rightarrow> mat \<Rightarrow> instrument_arg \<Rightarrow> redshift \<Rightarrow>
     mat option \<Rightarrow> aux_arg \<Rightarrow> error + mat" where
  "BaseAutoencoder_forward lib training draws a_requires_grad ae x instr z s aux =
     bindE (forward3 lib training draws a_requires_grad ae x instr z s aux)
       (\<lambda>(s1, spectrum_restframe, spectrum_observed). Inr spectrum_observed)"

text \<open>
  \<^verbatim>\<open>_loss\<close>. \<^verbatim>\<open>x.shape[1]\<close> is the number of bins of \<open>x\<close>; with rows and no bins torch
  divides zero by zero.
\<close>

datatype loss_value = PerSample vec | Summed real

definition loss_ind :: "mat \<Rightarrow> mat \<Rightarrow> mat \<Rightarrow> error + vec" where
  "loss_ind x w spectrum_observed =
     bindE (ew2 (-) x spectrum_observed) (\<lambda>d.
     bindE (ew2 (*) (map (map (\<lambda>v. (1 / 2) * v)) w) (map (map (\<lambda>v. v ^ 2)) d)) (\<lambda>e.
     let L = (case x of [] \<Rightarrow> 0 | r # _ \<Rightarrow> length r)
     in if e \<noteq> [] \<and> L = 0 then Inl NotANumber
        else Inr (map (\<lambda>row. sum_list row / real L) e)))"

definition loss_of :: "mat \<Rightarrow> mat \<Rightarrow> mat \<Rightarrow> bool \<Rightarrow> error + loss_value" where
  "loss_of x w spectrum_observed individual =
     bindE (loss_ind x w spectrum_observed) (\<lambda>li.
     if individual then Inr (PerSample li) else Inr (Summed (sum_list li)))"

definition loss ::
  "torch_lib \<Rightarrow> bool \<Rightarrow> rng \<Rightarrow> bool \<Rightarrow> BaseAutoencoder \<Rightarrow> mat \<Rightarrow> mat \<Rightarrow> instrument_arg \<Rightarrow> redshift \<Rightarrow>
     mat option \<Rightarrow> aux_arg \<Rightarrow> bool \<Rightarrow> error + loss_value" where
  "loss lib training draws a_requires_grad ae x w instr z s aux individual =
     bindE (BaseAutoencoder_forward lib training draws a_requires_grad ae x instr z s aux)
       (\<lambda>spectrum_observed. loss_of x w spectrum_observed individual)"

text \<open>
  \<^verbatim>\<open>SpectrumAutoencoder.__init__\<close>: the encoder with its default hidden widths,
  nonlinearities and dropout, the decoder with its default dropout.
\<close>

definition SpectrumAutoencoder_init ::
  "(nat \<Rightarrow> (nat \<Rightarrow> nat \<Rightarrow> real) \<times> (nat \<Rightarrow> real)) \<Rightarrow> (nat \<Rightarrow> (nat \<Rightarrow> nat \<Rightarrow> real) \<times> (nat \<Rightarrow> real)) \<Rightarrow>
     instrument_arg \<Rightarrow> vec \<Rightarrow> nat \<Rightarrow> nat \<Rightarrow> nat list \<Rightarrow> activation list option \<Rightarrow>
     error + BaseAutoencoder" where
  "SpectrumAutoencoder_init theta_enc theta_dec instr wave n_latent n_aux n_hidden act =
     bindE (SpectrumEncoder_init theta_enc instr n_latent [128, 64, 32] None n_aux 0) (\<lambda>enc.
     bindE (SpectrumDecoder_init theta_dec wave n_latent n_hidden act 0) (\<lambda>dec.
     BaseAutoencoder_init enc dec))"

section \<open>Notions used to state the properties\<close>

text \<open>
  A dropout layer draws nothing when the model is not training or its probability is 0.
\<close>

fun layer_quiet :: "bool \<Rightarrow> layer \<Rightarrow> bool" where
  "layer_quiet training (Dropout p) = (\<not> training \<or> p = 0)"
| "layer_quiet training (Linear l) = True"
| "layer_quiet training (Act a) = True"

definition block_quiet :: "bool \<Rightarrow> conv_block \<Rightarrow> bool" where
  "block_quiet training blk = (\<not> training \<or> blk_drop blk = 0)"

definition encoder_quiet :: "bool \<Rightarrow> SpectrumEncoder \<Rightarrow> bool" where
  "encoder_quiet training enc =
     (block_quiet training (conv1 enc) \<and> block_quiet training (conv2 enc)
      \<and> block_quiet training (conv3 enc) \<and> list_all (layer_quiet training) (enc_mlp enc))"

definition quiet :: "bool \<Rightarrow> BaseAutoencoder \<Rightarrow> bool" where
  "quiet training ae =
     (encoder_quiet training (encoder ae) \<and> list_all (layer_quiet training) (dec_mlp (decoder ae)))"

text \<open>
  What is assumed of the library where a property depends on it. The shapes that
  \<^verbatim>\<open>Conv1d\<close> and \<^verbatim>\<open>InstanceNorm1d\<close> return: a convolution that succeeds returns
  \<^verbatim>\<open>out_channels\<close> channels of at least one position, the normalisation returns the
  shape it was given.
\<close>

definition torch_shapes :: "torch_lib \<Rightarrow> bool" where
  "torch_shapes lib =
     ((\<forall>c f y. Conv1d_forward lib c f = Inr y \<longrightarrow>
          length y = out_channels c \<and> list_all (\<lambda>row. row \<noteq> []) y)
      \<and> (\<forall>n f y. InstanceNorm1d_forward lib n f = Inr y \<longrightarrow> map length y = map length f))"

text \<open>
  A permutation of the batch axis is a list \<open>p\<close> of the indices \<open>0, \<dots>, N - 1\<close> in some
  order; \<open>permute p xs\<close> puts \<open>xs ! (p ! k)\<close> at position \<open>k\<close>.
\<close>

definition is_perm :: "nat list \<Rightarrow> nat \<Rightarrow> bool" where
  "is_perm p n = (sort p = [0..<n])"

definition permute :: "nat list \<Rightarrow> 'a list \<Rightarrow> 'a list" where
  "permute p xs = map (\<lambda>i. xs ! i) p"

section \<open>Concrete inputs\<close>

text \<open>
  Inputs on which the theorems below are run: weights that are all zero, a library whose
  convolution returns one zero per output channel and whose other layers and
  interpolation return their input, and draws that keep every element.
\<close>

definition theta0 :: "nat \<Rightarrow> (nat \<Rightarrow> nat \<Rightarrow> real) \<times> (nat \<Rightarrow> real)" where
  "theta0 i = (\<lambda>j k. 0, \<lambda>j. 0)"

definition lib0 :: torch_lib where
  "lib0 = \<lparr>Conv1d_forward = (\<lambda>c f. Inr (replicate (out_channels c) [0])),
           InstanceNorm1d_forward = (\<lambda>n f. Inr f),
           MaxPool1d_forward = (\<lambda>p f. Inr f),
           Interp1d = (\<lambda>xs ys xnew. Inr ys)\<rparr>"

definition draws0 :: rng where
  "draws0 st n i = True"

definition instrument0 :: instrument where
  "instrument0 = \<lparr>wave_obs = [1, 2, 3], lsf = None, calibration = None\<rparr>"

text \<open>A small encoder and decoder given directly by their fields.\<close>

definition block0 :: "nat \<Rightarrow> nat \<Rightarrow> conv_block" where
  "block0 f_in f =
     \<lparr>blk_conv = \<lparr>in_channels = f_in, out_channels = f, kernel_size = 1, padding = 0\<rparr>,
      blk_norm = f, blk_act = nn_PReLU f, blk_drop = 0\<rparr>"

definition encoder0 :: "instrument_arg \<Rightarrow> nat \<Rightarrow> SpectrumEncoder" where
  "encoder0 instr k =
     \<lparr>enc_instrument = instr, enc_n_latent = k, enc_n_aux = 0,
      conv1 = block0 1 2, conv2 = block0 2 2, conv3 = block0 2 2, n_feature = 1,
      pool1 = \<lparr>pool_kernel_size = 1, pool_padding = 0\<rparr>,
      pool2 = \<lparr>pool_kernel_size = 1, pool_padding = 0\<rparr>,
      enc_mlp = [Linear (nn_Linear (\<lambda>j i. 1, \<lambda>j. 1) 1 k), Act Identity, Dropout 0]\<rparr>"

definition decoder0 :: "nat \<Rightarrow> SpectrumDecoder" where
  "decoder0 k =
     \<lparr>dec_mlp = [Linear (nn_Linear (\<lambda>j i. 1, \<lambda>j. 0) k 3), Act LeakyReLU, Dropout 0],
      dec_n_latent = k, wave_rest = [1, 2, 3]\<rparr>"

text \<open>
  A library that returns the shapes of torch and raises where torch does, with values
  given by \<open>key\<close>: a convolution checks the channels and the padded length and returns
  \<^verbatim>\<open>out_channels\<close> rows of \<open>L + 2 * padding - kernel_size + 1\<close> positions, position \<open>t\<close>
  holding \<open>key f t\<close> for the input \<open>f\<close>; the normalisation refuses a single position and
  otherwise returns its input; the pooling keeps the first
  \<open>(L + 2 * padding - kernel_size) div kernel_size + 1\<close> positions of every channel; and
  the interpolation returns one row for every row of the grid, the matching row of the
  batch (exact for the grid itself as the new grid).
\<close>

definition positions :: "mat \<Rightarrow> nat" where
  "positions f = (case f of [] \<Rightarrow> 0 | row # _ \<Rightarrow> length row)"

definition stub_lib :: "(mat \<Rightarrow> nat \<Rightarrow> real) \<Rightarrow> torch_lib" where
  "stub_lib key =
     \<lparr>Conv1d_forward = (\<lambda>c f.
        if length f \<noteq> in_channels c \<or> positions f + 2 * padding c < kernel_size c
        then Inl RuntimeError
        else Inr (replicate (out_channels c)
                    (map (key f) [0..<positions f + 2 * padding c - kernel_size c + 1]))),
      InstanceNorm1d_forward = (\<lambda>n f. if positions f = 1 then Inl ValueError else Inr f),
      MaxPool1d_forward = (\<lambda>p f.
        if positions f + 2 * pool_padding p < pool_kernel_size p then Inl RuntimeError
        else Inr (map (take ((positions f + 2 * pool_padding p - pool_kernel_size p)
                               div pool_kernel_size p + 1)) f)),
      Interp1d = (\<lambda>xs ys xnew. Inr (take (length xs) ys))\<rparr>"

text \<open>
  Two such libraries: in \<open>lib1\<close> every channel holds \<open>ln 3\<close> at position 1 and \<open>0\<close>
  elsewhere; in \<open>lib2\<close> every channel repeats the first value of its input.
\<close>

definition lib1 :: torch_lib where
  "lib1 = stub_lib (\<lambda>f t. if t = 1 then ln 3 else 0)"

definition lib2 :: torch_lib where
  "lib2 = stub_lib (\<lambda>f t. hd (hd f))"

text \<open>
  The encoder that the constructor builds for no hidden layer, the default
  nonlinearities and no dropout, and the decoder it builds for 56 rest wavelengths, one
  latent and no hidden layer.
\<close>

definition built_encoder ::
  "(nat \<Rightarrow> (nat \<Rightarrow> nat \<Rightarrow> real) \<times> (nat \<Rightarrow> real)) \<Rightarrow> instrument_arg \<Rightarrow> nat \<Rightarrow> nat \<Rightarrow> SpectrumEncoder" where
  "built_encoder theta instr n_latent n_aux =
     \<lparr>enc_instrument = instr, enc_n_latent = n_latent, enc_n_aux = n_aux,
      conv1 = \<lparr>blk_conv = \<lparr>in_channels = 1, out_channels = 128, kernel_size = 5, padding = 2\<rparr>,
                blk_norm = 128, blk_act = nn_PReLU 128, blk_drop = 0\<rparr>,
      conv2 = \<lparr>blk_conv = \<lparr>in_channels = 128, out_channels = 256, kernel_size = 11, padding = 5\<rparr>,
                blk_norm = 256, blk_act = nn_PReLU 256, blk_drop = 0\<rparr>,
      conv3 = \<lparr>blk_conv = \<lparr>in_channels = 256, out_channels = 512, kernel_size = 21, padding = 10\<rparr>,
                blk_norm = 512, blk_act = nn_PReLU 512, blk_drop = 0\<rparr>,
      n_feature = 256,
      pool1 = \<lparr>pool_kernel_size = 5, pool_padding = 2\<rparr>,
      pool2 = \<lparr>pool_kernel_size = 11, pool_padding = 5\<rparr>,
      enc_mlp = [Linear (nn_Linear (theta 0) (256 + n_aux) n_latent), Act Identity, Dropout 0]\<rparr>"

definition wave56 :: vec where
  "wave56 = map real [1..<57]"

definition instrument56 :: instrument where
  "instrument56 = \<lparr>wave_obs = wave56, lsf = None, calibration = None\<rparr>"

definition theta_mean :: "nat \<Rightarrow> (nat \<Rightarrow> nat \<Rightarrow> real) \<times> (nat \<Rightarrow> real)" where
  "theta_mean i = (\<lambda>j k. 1 / 256, \<lambda>j. 0)"

definition theta_one :: "nat \<Rightarrow> (nat \<Rightarrow> nat \<Rightarrow> real) \<times> (nat \<Rightarrow> real)" where
  "theta_one i = (\<lambda>j k. 1, \<lambda>j. 0)"

definition decoder56 :: SpectrumDecoder where
  "decoder56 =
     \<lparr>dec_mlp = [Linear (nn_Linear (theta_one 0) 1 56), Act LeakyReLU, Dropout 0],
      dec_n_latent = 1, wave_rest = wave56\<rparr>"

definition autoencoder56 :: BaseAutoencoder where
  "autoencoder56 =
     \<lparr>encoder = built_encoder theta_mean (Inst instrument56) 1 0, decoder = decoder56\<rparr>"

text \<open>A spectrum of 56 bins: \<open>c\<close> in the first bin and \<open>d\<close> in the others.\<close>

definition spectrum56 :: "real \<Rightarrow> real \<Rightarrow> vec" where
  "spectrum56 c d = c # replicate 55 d"

definition autoencoder0 :: BaseAutoencoder where
  "autoencoder0 = \<lparr>encoder = encoder0 (Inst instrument0) 2, decoder = decoder0 2\<rparr>"

section \<open>Properties of the dense block\<close>

lemma bindE_Inr [simp]: "bindE (Inr v) f = f v"
  by (simp add: bindE_def)

lemma bindE_Inl [simp]: "bindE (Inl e) f = Inl e"
  by (simp add: bindE_def)

lemma MLP_loop_fails:
  "foldl (\<lambda>layer i. bindE layer (\<lambda>ls. g ls i)) (Inl e) is = Inl e"
  by (induction "is") simp_all

lemma MLP_loop_runs:
  assumes "0 \<le> p" "p \<le> 1"
  shows "\<exists>m. foldl (\<lambda>layer i. bindE layer (\<lambda>ls. MLP_append theta ns act p ls i)) (Inr ls0) is = Inr m
           \<and> length m = length ls0 + 3 * length is"
  using assms
proof (induction "is" arbitrary: ls0)
  case Nil
  then show ?case by simp
next
  case (Cons i "is")
  define ls1 where
    "ls1 = ls0 @ [Linear (nn_Linear (theta i) (ns ! i) (ns ! (i + 1))), Act (act ! i), Dropout p]"
  have step: "MLP_append theta ns act p ls0 i = Inr ls1"
    using Cons.prems by (simp add: MLP_append_def nn_Dropout_def ls1_def)
  have len: "length ls1 = length ls0 + 3"
    by (simp add: ls1_def)
  from Cons.IH [OF Cons.prems, of ls1] obtain m where
    m: "foldl (\<lambda>layer i. bindE layer (\<lambda>ls. MLP_append theta ns act p ls i)) (Inr ls1) is = Inr m"
       "length m = length ls1 + 3 * length is"
    by blast
  have "foldl (\<lambda>layer i. bindE layer (\<lambda>ls. MLP_append theta ns act p ls i)) (Inr ls0) (i # is) = Inr m"
    using m(1) by (simp add: step)
  moreover have "length m = length ls0 + 3 * length (i # is)"
    using m(2) len by simp
  ultimately show ?case by blast
qed

lemma MLP_init_asserts:
  "length a \<noteq> length n_hidden + 1 \<Longrightarrow>
     MLP_init theta n_in n_out n_hidden (Some a) p = Inl AssertionError"
  by (simp add: MLP_init_def)

lemma MLP_init_builds:
  assumes "length a = length n_hidden + 1" "0 \<le> p" "p \<le> 1"
  shows "\<exists>m. MLP_init theta n_in n_out n_hidden (Some a) p = Inr m
           \<and> length m = 3 * (length n_hidden + 1)"
proof -
  from MLP_loop_runs [OF assms(2,3), of theta "[n_in] @ n_hidden @ [n_out]" a "[]"
      "[0..<length ([n_in] @ n_hidden @ [n_out]) - 1]"]
  obtain m where
    m: "foldl (\<lambda>layer i. bindE layer
              (\<lambda>ls. MLP_append theta ([n_in] @ n_hidden @ [n_out]) a p ls i))
          (Inr []) [0..<length ([n_in] @ n_hidden @ [n_out]) - 1] = Inr m"
       "length m = length ([] :: layer list)
          + 3 * length [0..<length ([n_in] @ n_hidden @ [n_out]) - 1]"
    by blast
  have "MLP_init theta n_in n_out n_hidden (Some a) p = Inr m"
    unfolding MLP_init_def Let_def using assms(1) m(1) by simp
  moreover have "length m = 3 * (length n_hidden + 1)"
    using m(2) by simp
  ultimately show ?thesis by blast
qed

lemma MLP_init_default:
  "MLP_init theta n_in n_out n_hidden None p =
     MLP_init theta n_in n_out n_hidden (Some (replicate (length n_hidden + 1) LeakyReLU)) p"
  by (simp add: MLP_init_def)

text \<open>
  C5. Construction of the dense block raises the assertion, before the loop builds any
  layer (so also before a bad dropout probability is noticed), whenever a list of
  nonlinearities is given whose length is not the number of hidden layers plus one. It
  succeeds, with three modules per layer, when the lengths match or when no list is
  given; no list means a leaky rectifier for every layer. (\<open>p\<close> is a probability.)
\<close>

theorem MLP_init_act_length:
  "(length a \<noteq> length n_hidden + 1 \<longrightarrow>
      MLP_init theta n_in n_out n_hidden (Some a) p = Inl AssertionError)
   \<and> (length a = length n_hidden + 1 \<and> 0 \<le> p \<and> p \<le> 1 \<longrightarrow>
      (\<exists>m. MLP_init theta n_in n_out n_hidden (Some a) p = Inr m
          \<and> length m = 3 * (length n_hidden + 1)))
   \<and> (0 \<le> p \<and> p \<le> 1 \<longrightarrow>
      (\<exists>m. MLP_init theta n_in n_out n_hidden None p = Inr m
          \<and> length m = 3 * (length n_hidden + 1)))
   \<and> MLP_init theta n_in n_out n_hidden None p =
       MLP_init theta n_in n_out n_hidden (Some (replicate (length n_hidden + 1) LeakyReLU)) p"
proof (intro conjI impI)
  assume "length a \<noteq> length n_hidden + 1"
  then show "MLP_init theta n_in n_out n_hidden (Some a) p = Inl AssertionError"
    by (rule MLP_init_asserts)
next
  assume "length a = length n_hidden + 1 \<and> 0 \<le> p \<and> p \<le> 1"
  then show "\<exists>m. MLP_init theta n_in n_out n_hidden (Some a) p = Inr m
          \<and> length m = 3 * (length n_hidden + 1)"
    using MLP_init_builds by blast
next
  assume h: "0 \<le> p \<and> p \<le> 1"
  have "length (replicate (length n_hidden + 1) LeakyReLU) = length n_hidden + 1"
    by simp
  from MLP_init_builds [OF this, of p theta n_in n_out] h
  show "\<exists>m. MLP_init theta n_in n_out n_hidden None p = Inr m
          \<and> length m = 3 * (length n_hidden + 1)"
    by (simp only: MLP_init_default)
next
  show "MLP_init theta n_in n_out n_hidden None p =
       MLP_init theta n_in n_out n_hidden (Some (replicate (length n_hidden + 1) LeakyReLU)) p"
    by (rule MLP_init_default)
qed

theorem MLP_init_act_length_witness:
  "MLP_init theta0 3 2 [4] (Some [Identity]) 0 = Inl AssertionError
   \<and> (\<exists>m. MLP_init theta0 3 2 [4] (Some [Identity, LeakyReLU]) 0 = Inr m \<and> length m = 6)
   \<and> (\<exists>m. MLP_init theta0 3 2 [4] None 0 = Inr m \<and> length m = 6)"
  using MLP_init_act_length [of "[Identity]" "[4]" theta0 3 2 0]
    MLP_init_act_length [of "[Identity, LeakyReLU]" "[4]" theta0 3 2 0]
  by simp

section \<open>Construction of the autoencoder\<close>

text \<open>
  C6. \<^verbatim>\<open>BaseAutoencoder.__init__\<close> raises its assertion whenever the latent dimensions
  of encoder and decoder differ, and otherwise succeeds with exactly the two components
  it was given.
\<close>

theorem BaseAutoencoder_init_latent:
  "(enc_n_latent enc \<noteq> dec_n_latent dec \<longrightarrow>
      BaseAutoencoder_init enc dec = Inl AssertionError)
   \<and> (enc_n_latent enc = dec_n_latent dec \<longrightarrow>
      (\<exists>ae. BaseAutoencoder_init enc dec = Inr ae \<and> encoder ae = enc \<and> decoder ae = dec))"
  by (simp add: BaseAutoencoder_init_def)

theorem BaseAutoencoder_init_latent_witness:
  "BaseAutoencoder_init (encoder0 InstNone 5) (decoder0 4) = Inl AssertionError
   \<and> (\<exists>ae. BaseAutoencoder_init (encoder0 InstNone 5) (decoder0 5) = Inr ae
         \<and> encoder ae = encoder0 InstNone 5 \<and> decoder ae = decoder0 5)"
  using BaseAutoencoder_init_latent [of "encoder0 InstNone 5" "decoder0 4"]
    BaseAutoencoder_init_latent [of "encoder0 InstNone 5" "decoder0 5"]
  by (simp add: encoder0_def decoder0_def)

section \<open>The transform and the redshift\<close>

lemma transform_no_redshift:
  "transform lib dec sp instr ZNone = Inl TypeError"
  by (simp add: transform_def wave_redshifted_def)

lemma bindE_isl:
  "(\<And>v. isl (f v)) \<Longrightarrow> isl (bindE r f)"
  by (cases r) simp_all

lemma SpectrumDecoder_forward_skips:
  "SpectrumDecoder_forward lib training draws dec s0 InstNone ZNone =
     decode training draws dec s0"
  by (cases "decode training draws dec s0") (simp_all add: SpectrumDecoder_forward_def)

text \<open>
  C10. With the redshift omitted (\<^verbatim>\<open>z=None\<close>), \<^verbatim>\<open>BaseAutoencoder.forward\<close> and
  \<^verbatim>\<open>BaseAutoencoder.loss\<close> raise for every input, model and instrument: nothing is
  returned. When encoder and dense decoder succeed the exception is the \<^verbatim>\<open>TypeError\<close> of
  \<^verbatim>\<open>1 + None\<close> in \<^verbatim>\<open>transform\<close>. \<^verbatim>\<open>SpectrumDecoder.forward\<close> with neither instrument nor
  redshift does skip the transform.
\<close>

theorem forward_without_redshift_raises:
  "isl (BaseAutoencoder_forward lib training draws g ae x instr ZNone s aux)
   \<and> isl (loss lib training draws g ae x w instr ZNone s aux individual)
   \<and> forward3 lib training draws g ae x instr ZNone (Some s0) aux =
       bindE (decode training draws (decoder ae) s0) (\<lambda>r. Inl TypeError)
   \<and> SpectrumDecoder_forward lib training draws dec s0 InstNone ZNone =
       decode training draws dec s0"
proof -
  have f3: "isl (forward3 lib training draws g ae x instr ZNone s aux)"
    unfolding forward3_def Let_def transform_no_redshift bindE_Inl
    by (intro bindE_isl) simp
  then have fw: "isl (BaseAutoencoder_forward lib training draws g ae x instr ZNone s aux)"
    by (cases "forward3 lib training draws g ae x instr ZNone s aux")
      (simp_all add: BaseAutoencoder_forward_def)
  then have ls: "isl (loss lib training draws g ae x w instr ZNone s aux individual)"
    by (cases "BaseAutoencoder_forward lib training draws g ae x instr ZNone s aux")
      (simp_all add: loss_def)
  note d = SpectrumDecoder_forward_skips
  have "forward3 lib training draws g ae x instr ZNone (Some s0) aux =
       bindE (decode training draws (decoder ae) s0) (\<lambda>r. Inl TypeError)"
    by (simp add: forward3_def BaseAutoencoder_decode_def d transform_no_redshift)
  with fw ls d show ?thesis by simp
qed

theorem forward_without_redshift_raises_witness:
  "isl (BaseAutoencoder_forward lib0 False draws0 False autoencoder0 [[1, 2, 3]] InstNone ZNone
          None AuxNone)
   \<and> isl (loss lib0 False draws0 False autoencoder0 [[1, 2, 3]] [[1, 1, 1]] InstNone ZNone
          None AuxNone True)"
  using forward_without_redshift_raises [of lib0 False draws0 False autoencoder0 "[[1, 2, 3]]"
      InstNone None AuxNone "[[1, 1, 1]]" True]
  by blast

text \<open>
  C1 (the code departs from it). \<^verbatim>\<open>transform\<close> with the instrument absent never returns
  a spectrum: after the interpolation it reads \<^verbatim>\<open>instrument.lsf\<close>, which \<^verbatim>\<open>None\<close> does
  not have. With \<open>z = 0\<close> and an interpolation that succeeds the result is the
  \<^verbatim>\<open>AttributeError\<close>.
\<close>

theorem transform_without_instrument_raises:
  "isl (transform lib dec spectrum_restframe InstNone z)
   \<and> transform lib dec spectrum_restframe InstNone (ZScalar 0) =
       bindE (Interp1d lib [map (\<lambda>v. v * (1 + 0)) (wave_rest dec)] spectrum_restframe
                (wave_rest dec))
         (\<lambda>spectrum. Inl AttributeError)
   \<and> transform lib0 (decoder0 5) [[1, 2, 3]] InstNone (ZScalar 0) = Inl AttributeError"
proof -
  have "isl (transform lib dec spectrum_restframe InstNone z)"
    unfolding transform_def Let_def
    by (rule bindE_isl, rule bindE_isl) simp
  then show ?thesis
    by (simp add: transform_def wave_redshifted_def lib0_def decoder0_def)
qed

section \<open>The loss\<close>

lemma traverse_pure: "traverse (\<lambda>x. Inr (f x)) xs = Inr (map f xs)"
  by (induction xs) simp_all

lemma traverse_cong:
  "(\<And>x. x \<in> set xs \<Longrightarrow> f x = g x) \<Longrightarrow> traverse f xs = traverse g xs"
  by (induction xs) simp_all

lemma ew1_same_length:
  "length a = length b \<Longrightarrow> ew1 g a b = Inr (map (\<lambda>(u, v). g u v) (zip a b))"
  by (simp add: ew1_def broadcast_def traverse_pure case_prod_unfold)

lemma ew2_same_shape:
  assumes "length A = length B" "\<And>n. n < length A \<Longrightarrow> length (A ! n) = length (B ! n)"
  shows "ew2 g A B = Inr (map (\<lambda>(a, b). map (\<lambda>(u, v). g u v) (zip a b)) (zip A B))"
proof -
  have "traverse (\<lambda>(a, b). ew1 g a b) (zip A B)
      = traverse (\<lambda>ab. Inr (map (\<lambda>(u, v). g u v) (zip (fst ab) (snd ab)))) (zip A B)"
  proof (rule traverse_cong)
    fix ab assume "ab \<in> set (zip A B)"
    then obtain n where "n < length (zip A B)" "ab = zip A B ! n"
      by (metis in_set_conv_nth)
    then have "length (fst ab) = length (snd ab)"
      using assms by simp
    then show "(case ab of (a, b) \<Rightarrow> ew1 g a b) = Inr (map (\<lambda>(u, v). g u v) (zip (fst ab) (snd ab)))"
      by (simp add: ew1_same_length case_prod_unfold)
  qed
  then show ?thesis
    using assms(1) by (simp add: ew2_def broadcast_def traverse_pure case_prod_unfold)
qed

lemma loss_ind_same_shape:
  assumes "list_all (\<lambda>r. length r = L) x" "list_all (\<lambda>r. length r = L) w"
    "list_all (\<lambda>r. length r = L) r" "length w = length x" "length r = length x" "0 < L"
  shows "loss_ind x w r =
     Inr (map (\<lambda>n. (\<Sum>l\<leftarrow>[0..<L]. (1 / 2) * w ! n ! l * (x ! n ! l - r ! n ! l) ^ 2) / real L)
            [0..<length x])"
proof -
  have lx: "\<And>n. n < length x \<Longrightarrow> length (x ! n) = L"
    and lw: "\<And>n. n < length x \<Longrightarrow> length (w ! n) = L"
    and lr: "\<And>n. n < length x \<Longrightarrow> length (r ! n) = L"
    using assms by (simp_all add: list_all_length)
  define d where "d = map (\<lambda>(a, b). map (\<lambda>(u, v). u - v) (zip a b)) (zip x r)"
  have d: "ew2 (-) x r = Inr d"
    unfolding d_def using assms(5) lx lr by (intro ew2_same_shape) simp_all
  have ld: "length d = length x" and ldn: "\<And>n. n < length x \<Longrightarrow> length (d ! n) = L"
    using assms(5) lx lr by (simp_all add: d_def)
  define w2 where "w2 = map (map (\<lambda>v. (1 / 2) * v)) w"
  define d2 where "d2 = map (map (\<lambda>v. v ^ 2)) d"
  define e where "e = map (\<lambda>(a, b). map (\<lambda>(u, v). u * v) (zip a b)) (zip w2 d2)"
  have e: "ew2 (*) w2 d2 = Inr e"
    unfolding e_def using assms(4) ld lw ldn by (intro ew2_same_shape) (simp_all add: w2_def d2_def)
  have le: "length e = length x"
    using assms(4) ld by (simp add: e_def w2_def d2_def)
  have L: "(case x of [] \<Rightarrow> 0 | r # _ \<Rightarrow> length r) = (if x = [] then 0 else L)"
    using lx [of 0] by (cases x) simp_all
  have "map (\<lambda>row. sum_list row / real L) e =
        map (\<lambda>n. (\<Sum>l\<leftarrow>[0..<L]. (1 / 2) * w ! n ! l * (x ! n ! l - r ! n ! l) ^ 2) / real L)
          [0..<length x]"
  proof (rule nth_equalityI)
    show "length (map (\<lambda>row. sum_list row / real L) e) = length (map (\<lambda>n. (\<Sum>l\<leftarrow>[0..<L]. (1 / 2) * w ! n ! l * (x ! n ! l - r ! n ! l) ^ 2) / real L) [0..<length x])"
      using le by simp
  next
    fix n assume "n < length (map (\<lambda>row. sum_list row / real L) e)"
    then have n: "n < length x" using le by simp
    have "e ! n = map (\<lambda>l. (1 / 2) * w ! n ! l * (x ! n ! l - r ! n ! l) ^ 2) [0..<L]"
    proof (rule nth_equalityI)
      show "length (e ! n) = length (map (\<lambda>l. (1 / 2) * w ! n ! l * (x ! n ! l - r ! n ! l) ^ 2) [0..<L])"
        using n assms(4,5) ld lw ldn by (simp add: e_def w2_def d2_def)
    next
      fix l assume "l < length (e ! n)"
      then have l: "l < L"
        using n assms(4,5) ld lw ldn by (simp add: e_def w2_def d2_def)
      show "e ! n ! l = map (\<lambda>l. (1 / 2) * w ! n ! l * (x ! n ! l - r ! n ! l) ^ 2) [0..<L] ! l"
        using n l assms(4,5) ld lw lx lr ldn by (simp add: e_def w2_def d2_def d_def)
    qed
    then show "map (\<lambda>row. sum_list row / real L) e ! n = map (\<lambda>n. (\<Sum>l\<leftarrow>[0..<L]. (1 / 2) * w ! n ! l * (x ! n ! l - r ! n ! l) ^ 2) / real L) [0..<length x] ! n"
      using n le by simp
  qed
  moreover have "\<not> (e \<noteq> [] \<and> (case x of [] \<Rightarrow> 0 | r # _ \<Rightarrow> length r) = 0)"
    using le assms(6) L by (cases x) auto
  moreover have "map (\<lambda>row. sum_list row / real (case x of [] \<Rightarrow> 0 | r # _ \<Rightarrow> length r)) e
      = map (\<lambda>row. sum_list row / real L) e"
    using le L by (cases "x = []") simp_all
  ultimately show ?thesis
    unfolding loss_ind_def Let_def w2_def [symmetric] d d2_def [symmetric] bindE_Inr e
    by (simp only: if_False)
qed

text \<open>A run of the whole model on one spectrum of three bins.\<close>

lemma example_run:
  "BaseAutoencoder_forward lib0 False draws0 False autoencoder0 [[a, b, c]] InstNone (ZScalar 0)
     None AuxNone = Inr [[2, 2, 2]]"
  by (simp add: BaseAutoencoder_forward_def forward3_def encode_def SpectrumEncoder_forward_def
      SpectrumEncoder_attention_def downsample_def conv_block_forward_def autoencoder0_def
      encoder0_def decoder0_def block0_def lib0_def nn_PReLU_def prelu_channels_def
      dropout_fmap_def dropout_row_def enumerate0_def split_half_def softmax_def attend_def
      ew2_def ew1_def broadcast_def nn_Linear_def linear_forward_def leaky_def
      attention_hook_registered_def BaseAutoencoder_decode_def SpectrumDecoder_forward_def
      decode_def transform_def wave_redshifted_def instrument0_def eval_nat_numeral)

text \<open>
  C2. Let \<open>r\<close> be the observed-frame reconstruction that \<^verbatim>\<open>forward\<close> returns for a batch
  \<open>x\<close> of \<open>N\<close> spectra with \<open>L\<close> bins, and \<open>w\<close> weights of the same shape. The loss of sample
  \<open>n\<close> is the sum over the \<open>L\<close> bins of \<open>0.5 * w * (x - r)\<^sup>2\<close> divided by \<open>L\<close>; \<^verbatim>\<open>loss\<close>
  returns the vector of these \<open>N\<close> numbers when \<^verbatim>\<open>individual\<close> is set and their sum
  otherwise. When the reconstruction equals the input every entry and the sum are 0.
\<close>

theorem loss_formula:
  assumes "BaseAutoencoder_forward lib training draws g ae x instr z s aux = Inr r"
    and "length x = N" "length w = N" "length r = N" "0 < L"
    and "list_all (\<lambda>row. length row = L) x" "list_all (\<lambda>row. length row = L) w"
      "list_all (\<lambda>row. length row = L) r"
  shows "loss lib training draws g ae x w instr z s aux True =
       Inr (PerSample (map (\<lambda>n. (\<Sum>l\<leftarrow>[0..<L]. (1 / 2) * w ! n ! l * (x ! n ! l - r ! n ! l) ^ 2) / real L)
              [0..<N]))
     \<and> loss lib training draws g ae x w instr z s aux False =
       Inr (Summed (\<Sum>n\<leftarrow>[0..<N].
              (\<Sum>l\<leftarrow>[0..<L]. (1 / 2) * w ! n ! l * (x ! n ! l - r ! n ! l) ^ 2) / real L))
     \<and> (r = x \<longrightarrow>
          loss lib training draws g ae x w instr z s aux True = Inr (PerSample (replicate N 0))
        \<and> loss lib training draws g ae x w instr z s aux False = Inr (Summed 0))"
proof -
  have li: "loss_ind x w r =
     Inr (map (\<lambda>n. (\<Sum>l\<leftarrow>[0..<L]. (1 / 2) * w ! n ! l * (x ! n ! l - r ! n ! l) ^ 2) / real L)
            [0..<N])"
    using loss_ind_same_shape [of L x w r] assms by simp
  have zero: "loss_ind x w r = Inr (replicate N 0)" if "r = x"
    unfolding li using that by (simp add: map_replicate_const sum_list_replicate)
  have "loss lib training draws g ae x w instr z s aux True = Inr (PerSample (replicate N 0))
      \<and> loss lib training draws g ae x w instr z s aux False = Inr (Summed 0)" if "r = x"
    using zero [OF that] by (simp add: loss_def loss_of_def assms(1) sum_list_replicate)
  then show ?thesis
    by (simp add: loss_def loss_of_def assms(1) li)
qed

theorem loss_formula_witness:
  "loss lib0 False draws0 False autoencoder0 [[1, 2, 3]] [[1, 1, 0]] InstNone (ZScalar 0) None AuxNone
     True = Inr (PerSample [1 / 6])
   \<and> loss lib0 False draws0 False autoencoder0 [[1, 2, 3]] [[1, 1, 0]] InstNone (ZScalar 0) None
     AuxNone False = Inr (Summed (1 / 6))
   \<and> loss lib0 False draws0 False autoencoder0 [[2, 2, 2]] [[1, 1, 1]] InstNone (ZScalar 0) None
     AuxNone True = Inr (PerSample [0])
   \<and> loss lib0 False draws0 False autoencoder0 [[2, 2, 2]] [[1, 1, 1]] InstNone (ZScalar 0) None
     AuxNone False = Inr (Summed 0)"
  using loss_formula [OF example_run [of 1 2 3], of 1 "[[1, 1, 0]]" 3]
    loss_formula [OF example_run [of 2 2 2], of 1 "[[1, 1, 1]]" 3]
  by (simp add: eval_nat_numeral)


section \<open>Evaluation mode\<close>

lemma enumerate0_snd: "map snd (enumerate0 xs) = xs"
  by (simp add: enumerate0_def)

lemma enumerate0_length [simp]: "length (enumerate0 xs) = length xs"
  by (simp add: enumerate0_def)

lemma dropout_row_quiet:
  "\<not> training \<or> p = 0 \<Longrightarrow> dropout_row training p keep xs = xs"
  by (auto simp add: dropout_row_def)

lemma dropout_fmap_quiet:
  assumes "\<not> training \<or> p = 0"
  shows "dropout_fmap training p keep f = f"
proof -
  have "dropout_fmap training p keep f = map snd (enumerate0 f)"
    unfolding dropout_fmap_def by (simp add: dropout_row_quiet [OF assms] case_prod_unfold)
  then show ?thesis by (simp add: enumerate0_snd)
qed

lemma dropout_batch_quiet:
  assumes "\<not> training \<or> p = 0"
  shows "map (\<lambda>(n, x). dropout_row training p (draw n) x) (enumerate0 X) = X"
    and "map (\<lambda>(n, f). dropout_fmap training p (draw n) f) (enumerate0 X') = X'"
proof -
  have "map (\<lambda>(n, x). dropout_row training p (draw n) x) (enumerate0 X) = map snd (enumerate0 X)"
    by (simp add: dropout_row_quiet [OF assms] case_prod_unfold)
  then show "map (\<lambda>(n, x). dropout_row training p (draw n) x) (enumerate0 X) = X"
    by (simp add: enumerate0_snd)
  have "map (\<lambda>(n, f). dropout_fmap training p (draw n) f) (enumerate0 X') = map snd (enumerate0 X')"
    by (simp add: dropout_fmap_quiet [OF assms] case_prod_unfold)
  then show "map (\<lambda>(n, f). dropout_fmap training p (draw n) f) (enumerate0 X') = X'"
    by (simp add: enumerate0_snd)
qed

text \<open>The per-row reading of a layer and of a dense block when no dropout draws.\<close>

lemma layer_forward_quiet:
  "layer_quiet training l \<Longrightarrow> layer_forward training d1 l X = layer_forward training d2 l X"
  by (cases l) (simp_all add: dropout_batch_quiet)

lemma MLP_forward_quiet:
  "list_all (layer_quiet training) m \<Longrightarrow>
     MLP_forward training d1 k m X = MLP_forward training d2 k' m X"
proof (induction m arbitrary: k k' X)
  case Nil
  then show ?case by simp
next
  case (Cons l m)
  then have "layer_forward training (d1 k) l X = layer_forward training (d2 k') l X"
    by (simp add: layer_forward_quiet)
  moreover have "MLP_forward training d1 (Suc k) m = MLP_forward training d2 (Suc k') m"
    using Cons by auto
  ultimately show ?case by simp
qed

lemma conv_block_forward_quiet:
  "block_quiet training blk \<Longrightarrow>
     conv_block_forward lib training d1 blk X = conv_block_forward lib training d2 blk X"
  by (simp add: conv_block_forward_def block_quiet_def dropout_batch_quiet)

lemma downsample_quiet:
  "encoder_quiet training enc \<Longrightarrow>
     downsample lib training d1 enc x = downsample lib training d2 enc x"
proof -
  assume q: "encoder_quiet training enc"
  have c1: "conv_block_forward lib training (d1 Conv1) (conv1 enc) =
      conv_block_forward lib training (d2 Conv1) (conv1 enc)"
    using q by (intro ext conv_block_forward_quiet) (simp add: encoder_quiet_def)
  have c2: "conv_block_forward lib training (d1 Conv2) (conv2 enc) =
      conv_block_forward lib training (d2 Conv2) (conv2 enc)"
    using q by (intro ext conv_block_forward_quiet) (simp add: encoder_quiet_def)
  have c3: "conv_block_forward lib training (d1 Conv3) (conv3 enc) =
      conv_block_forward lib training (d2 Conv3) (conv3 enc)"
    using q by (intro ext conv_block_forward_quiet) (simp add: encoder_quiet_def)
  show ?thesis
    unfolding downsample_def c1 c2 c3 ..
qed

lemma SpectrumEncoder_forward_quiet:
  assumes "encoder_quiet training enc"
  shows "SpectrumEncoder_forward lib training d1 g enc x aux =
     SpectrumEncoder_forward lib training d2 g enc x aux"
proof -
  have "MLP_forward training (\<lambda>k. d1 (EncoderMLP k)) 0 (enc_mlp enc) =
        MLP_forward training (\<lambda>k. d2 (EncoderMLP k)) 0 (enc_mlp enc)"
    using assms by (intro ext MLP_forward_quiet) (simp add: encoder_quiet_def)
  moreover have "downsample lib training d1 enc x = downsample lib training d2 enc x"
    using assms by (rule downsample_quiet)
  ultimately show ?thesis
    unfolding SpectrumEncoder_forward_def SpectrumEncoder_attention_def by simp
qed

lemma decode_quiet:
  "list_all (layer_quiet training) (dec_mlp dec) \<Longrightarrow>
     decode training d1 dec s = decode training d2 dec s"
  unfolding decode_def by (rule MLP_forward_quiet)

lemma BaseAutoencoder_forward_quiet:
  assumes "quiet training ae"
  shows "BaseAutoencoder_forward lib training d1 g ae x instr z s aux =
     BaseAutoencoder_forward lib training d2 g ae x instr z s aux"
proof -
  have "SpectrumEncoder_forward lib training d1 g (encoder ae) x aux =
      SpectrumEncoder_forward lib training d2 g (encoder ae) x aux"
    using assms by (intro SpectrumEncoder_forward_quiet) (simp add: quiet_def)
  then have e: "encode lib training d1 g ae x aux = encode lib training d2 g ae x aux"
    by (simp add: encode_def)
  have "decode training d1 (decoder ae) = decode training d2 (decoder ae)"
    using assms by (intro ext decode_quiet) (simp add: quiet_def)
  then have d: "BaseAutoencoder_decode lib training d1 ae = BaseAutoencoder_decode lib training d2 ae"
    by (intro ext) (simp add: BaseAutoencoder_decode_def SpectrumDecoder_forward_def)
  show ?thesis
    unfolding BaseAutoencoder_forward_def forward3_def e d ..
qed

lemma quiet_eval: "list_all (layer_quiet False) m" "block_quiet False blk"
  "encoder_quiet False enc" "quiet False ae"
proof -
  show m: "list_all (layer_quiet False) m" for m
  proof (induction m)
    case Nil
    show ?case by simp
  next
    case (Cons l m)
    then show ?case by (cases l) simp_all
  qed
  show "block_quiet False blk" by (simp add: block_quiet_def)
  then show "encoder_quiet False enc" by (simp add: encoder_quiet_def block_quiet_def m)
  then show "quiet False ae" by (simp add: quiet_def encoder_quiet_def block_quiet_def m)
qed

text \<open>
  C8. In evaluation mode dropout has no effect and the forward computation does not
  depend on the random draws: for the same model and the same inputs, the dense block,
  the encoder, the autoencoder and the loss return the same result whatever the draws
  \<open>d1\<close> and \<open>d2\<close> of the two calls; a dropout layer returns its input.
\<close>

theorem eval_mode_deterministic:
  "layer_forward False draw (Dropout p) X = Inr X
   \<and> MLP_forward False m1 k m X = MLP_forward False m2 k m X
   \<and> SpectrumEncoder_forward lib False d1 g enc x aux =
       SpectrumEncoder_forward lib False d2 g enc x aux
   \<and> BaseAutoencoder_forward lib False d1 g ae x instr z s aux =
       BaseAutoencoder_forward lib False d2 g ae x instr z s aux
   \<and> loss lib False d1 g ae x w instr z s aux individual =
       loss lib False d2 g ae x w instr z s aux individual"
proof (intro conjI)
  show "layer_forward False draw (Dropout p) X = Inr X"
    by (simp add: dropout_batch_quiet)
  show "MLP_forward False m1 k m X = MLP_forward False m2 k m X"
    by (rule MLP_forward_quiet) (rule quiet_eval)
  show "SpectrumEncoder_forward lib False d1 g enc x aux =
       SpectrumEncoder_forward lib False d2 g enc x aux"
    by (rule SpectrumEncoder_forward_quiet) (rule quiet_eval)
  have fw: "BaseAutoencoder_forward lib False d1 g ae x instr z s aux =
       BaseAutoencoder_forward lib False d2 g ae x instr z s aux"
    by (rule BaseAutoencoder_forward_quiet) (rule quiet_eval)
  then show "BaseAutoencoder_forward lib False d1 g ae x instr z s aux =
       BaseAutoencoder_forward lib False d2 g ae x instr z s aux" .
  show "loss lib False d1 g ae x w instr z s aux individual =
       loss lib False d2 g ae x w instr z s aux individual"
    unfolding loss_def fw ..
qed

theorem eval_mode_deterministic_witness:
  "layer_forward False (draws0 (EncoderMLP 2)) (Dropout (1 / 2)) [[1, 2, 3]] = Inr [[1, 2, 3]]
   \<and> BaseAutoencoder_forward lib0 False draws0 False autoencoder0 [[1, 2, 3]] InstNone (ZScalar 0)
       None AuxNone =
     BaseAutoencoder_forward lib0 False (\<lambda>st n i. False) False autoencoder0 [[1, 2, 3]] InstNone
       (ZScalar 0) None AuxNone"
  using eval_mode_deterministic [where draw = "draws0 (EncoderMLP 2)" and p = "1 / 2"
      and X = "[[1, 2, 3]]" and lib = lib0 and ?d1.0 = draws0 and ?d2.0 = "\<lambda>st n i. False"
      and g = False and ae = autoencoder0 and x = "[[1, 2, 3]]" and instr = InstNone
      and z = "ZScalar 0" and s = None and aux = AuxNone]
  by blast


section \<open>Shapes through the encoder\<close>

lemma bindE_eq_Inr: "bindE r f = Inr y \<longleftrightarrow> (\<exists>v. r = Inr v \<and> f v = Inr y)"
  by (cases r) simp_all

lemma traverse_length: "traverse f xs = Inr ys \<Longrightarrow> length ys = length xs"
  by (induction xs arbitrary: ys) (auto simp add: bindE_eq_Inr)

lemma traverse_nth:
  "traverse f xs = Inr ys \<Longrightarrow> n < length xs \<Longrightarrow> f (xs ! n) = Inr (ys ! n)"
proof (induction xs arbitrary: ys n)
  case Nil
  then show ?case by simp
next
  case (Cons x xs)
  then obtain y ys' where y: "f x = Inr y" "traverse f xs = Inr ys'" "ys = y # ys'"
    by (auto simp add: bindE_eq_Inr)
  show ?case
  proof (cases n)
    case 0
    then show ?thesis using y by simp
  next
    case (Suc k)
    then show ?thesis using y Cons.IH [OF y(2), of k] Cons.prems(2) by simp
  qed
qed

lemma dropout_row_length [simp]: "length (dropout_row training p keep xs) = length xs"
  by (simp add: dropout_row_def)

lemma dropout_fmap_shape: "map length (dropout_fmap training p keep f) = map length f"
  by (rule nth_equalityI) (simp_all add: dropout_fmap_def enumerate0_def)

lemma prelu_fmap_shape:
  "act_forward_fmap (PReLU w) f = Inr y \<Longrightarrow> map length y = map length f"
  by (rule nth_equalityI)
    (auto simp add: prelu_channels_def split: if_splits)

text \<open>Shape facts of a feature map: its channel count and that no channel is empty.\<close>

lemma same_shape:
  assumes "map length y = map length f"
  shows "length y = length f" "list_all (\<lambda>row. row \<noteq> []) f \<Longrightarrow> list_all (\<lambda>row. row \<noteq> []) y"
proof -
  show len: "length y = length f"
    using assms by (metis length_map)
  assume "list_all (\<lambda>row. row \<noteq> []) f"
  then have "\<forall>k \<in> set (map length f). 0 < k"
    by (auto simp add: list_all_iff)
  then have "\<forall>k \<in> set (map length y). 0 < k"
    using assms by simp
  then show "list_all (\<lambda>row. row \<noteq> []) y"
    by (auto simp add: list_all_iff)
qed

lemma conv_block_forward_shape:
  assumes lib: "torch_shapes lib" and act: "blk_act blk = PReLU w"
    and run: "conv_block_forward lib training draw blk X = Inr Y"
  shows "length Y = length X"
    and "n < length X \<Longrightarrow> length (Y ! n) = out_channels (blk_conv blk)
          \<and> list_all (\<lambda>row. row \<noteq> []) (Y ! n)"
proof -
  from run obtain X1 X2 X3 where
    X1: "traverse (Conv1d_forward lib (blk_conv blk)) X = Inr X1" and
    X2: "traverse (InstanceNorm1d_forward lib (blk_norm blk)) X1 = Inr X2" and
    X3: "traverse (act_forward_fmap (blk_act blk)) X2 = Inr X3" and
    Y: "Y = map (\<lambda>(n, f). dropout_fmap training (blk_drop blk) (draw n) f) (enumerate0 X3)"
    unfolding conv_block_forward_def by (auto simp add: bindE_eq_Inr)
  have l1: "length X1 = length X" and l2: "length X2 = length X" and l3: "length X3 = length X"
    using traverse_length [OF X1] traverse_length [OF X2] traverse_length [OF X3] by simp_all
  show "length Y = length X"
    using l3 by (simp add: Y)
  assume n: "n < length X"
  have c: "Conv1d_forward lib (blk_conv blk) (X ! n) = Inr (X1 ! n)"
    using traverse_nth [OF X1 n] .
  have s1: "length (X1 ! n) = out_channels (blk_conv blk)" "list_all (\<lambda>row. row \<noteq> []) (X1 ! n)"
    using lib c unfolding torch_shapes_def by blast+
  have "InstanceNorm1d_forward lib (blk_norm blk) (X1 ! n) = Inr (X2 ! n)"
    using traverse_nth [OF X2] n l1 by simp
  then have m2: "map length (X2 ! n) = map length (X1 ! n)"
    using lib unfolding torch_shapes_def by blast
  have "act_forward_fmap (PReLU w) (X2 ! n) = Inr (X3 ! n)"
    using traverse_nth [OF X3] n l2 act by simp
  then have m3: "map length (X3 ! n) = map length (X2 ! n)"
    by (rule prelu_fmap_shape)
  have "Y ! n = dropout_fmap training (blk_drop blk) (draw n) (X3 ! n)"
    using n l3 by (simp add: Y enumerate0_def)
  then have "map length (Y ! n) = map length (X1 ! n)"
    using m2 m3 by (simp add: dropout_fmap_shape)
  then show "length (Y ! n) = out_channels (blk_conv blk) \<and> list_all (\<lambda>row. row \<noteq> []) (Y ! n)"
    using same_shape [of "Y ! n" "X1 ! n"] s1 by simp
qed

lemma conv_block_forward_length:
  "conv_block_forward lib training draw blk X = Inr Y \<Longrightarrow> length Y = length X"
  unfolding conv_block_forward_def
  by (auto simp add: bindE_eq_Inr dest!: traverse_length)

lemma downsample_shape:
  assumes lib: "torch_shapes lib" and act: "blk_act (conv3 enc) = PReLU w"
    and run: "downsample lib training draws enc x = Inr (h, a)"
  shows "length h = length x" "length a = length x"
    and "n < length x \<Longrightarrow>
           length (h ! n) = out_channels (blk_conv (conv3 enc)) div 2
         \<and> length (a ! n) = out_channels (blk_conv (conv3 enc)) div 2
         \<and> list_all (\<lambda>row. row \<noteq> []) (a ! n)"
proof -
  from run obtain x1 x2 x3 x4 x5 ha where
    x1: "conv_block_forward lib training (draws Conv1) (conv1 enc) (map (\<lambda>r. [r]) x) = Inr x1" and
    x2: "traverse (MaxPool1d_forward lib (pool1 enc)) x1 = Inr x2" and
    x3: "conv_block_forward lib training (draws Conv2) (conv2 enc) x2 = Inr x3" and
    x4: "traverse (MaxPool1d_forward lib (pool2 enc)) x3 = Inr x4" and
    x5: "conv_block_forward lib training (draws Conv3) (conv3 enc) x4 = Inr x5" and
    ha: "traverse split_half x5 = Inr ha" and
    h: "h = map fst ha" and a: "a = map snd ha"
    unfolding downsample_def by (auto simp add: bindE_eq_Inr)
  have l4: "length x4 = length x"
    using conv_block_forward_length [OF x1] traverse_length [OF x2]
      conv_block_forward_length [OF x3] traverse_length [OF x4] by simp
  have l5: "length x5 = length x"
    using conv_block_forward_length [OF x5] l4 by simp
  have lha: "length ha = length x"
    using traverse_length [OF ha] l5 by simp
  show "length h = length x" "length a = length x"
    using lha by (simp_all add: h a)
  assume n: "n < length x"
  have s5: "length (x5 ! n) = out_channels (blk_conv (conv3 enc))"
    "list_all (\<lambda>row. row \<noteq> []) (x5 ! n)"
    using conv_block_forward_shape(2) [OF lib act x5, of n] n l4 by simp_all
  have sp: "split_half (x5 ! n) = Inr (ha ! n)"
    using traverse_nth [OF ha, of n] n l5 by simp
  then have even: "length (x5 ! n) div 2 + length (x5 ! n) div 2 = length (x5 ! n)"
    and han: "ha ! n = (take (length (x5 ! n) div 2) (x5 ! n), drop (length (x5 ! n) div 2) (x5 ! n))"
    by (auto simp add: split_half_def Let_def split: if_splits)
  have "list_all (\<lambda>row. row \<noteq> []) (drop (length (x5 ! n) div 2) (x5 ! n))"
    using s5(2) by (auto simp add: list_all_iff dest: in_set_dropD)
  then show "length (h ! n) = out_channels (blk_conv (conv3 enc)) div 2
         \<and> length (a ! n) = out_channels (blk_conv (conv3 enc)) div 2
         \<and> list_all (\<lambda>row. row \<noteq> []) (a ! n)"
    using n lha han even s5(1) by (simp add: h a)
qed

section \<open>The attention weights\<close>

lemma sum_list_exp_pos: "r \<noteq> [] \<Longrightarrow> 0 < (\<Sum>u\<leftarrow>r. exp (u :: real))"
proof (induction r)
  case Nil
  then show ?case by simp
next
  case (Cons v r)
  have "0 \<le> (\<Sum>u\<leftarrow>r. exp u)"
    by (rule sum_list_nonneg) auto
  moreover have "0 < exp v" by simp
  ultimately show ?case by (simp add: add_pos_nonneg)
qed

lemma sum_list_divide: "(\<Sum>v\<leftarrow>r. f v / (c :: real)) = (\<Sum>v\<leftarrow>r. f v) / c"
  by (induction r) (simp_all add: add_divide_distrib)

lemma softmax_sums_to_one: "r \<noteq> [] \<Longrightarrow> sum_list (softmax r) = 1"
  using sum_list_exp_pos [of r] by (simp add: softmax_def sum_list_divide)

text \<open>What \<^verbatim>\<open>SpectrumEncoder.__init__\<close> builds.\<close>

lemma SpectrumEncoder_init_fields:
  assumes "SpectrumEncoder_init theta instr n_latent n_hidden act n_aux dropout = Inr enc"
  shows "out_channels (blk_conv (conv3 enc)) = 512" "blk_act (conv3 enc) = nn_PReLU 512"
    and "MLP_init theta (256 + n_aux) n_latent n_hidden
           (Some (case act of None \<Rightarrow> map nn_PReLU n_hidden @ [Identity] | Some a \<Rightarrow> a)) dropout
         = Inr (enc_mlp enc)"
    and "enc_n_aux enc = n_aux" "enc_n_latent enc = n_latent" "enc_instrument enc = instr"
  using assms
  by (auto simp add: SpectrumEncoder_init_def conv_blocks_def conv_blocks_append_def
      nn_Dropout_def bindE_eq_Inr split: if_splits)

lemma attention_shape:
  assumes lib: "torch_shapes lib"
    and init: "SpectrumEncoder_init theta instr n_latent n_hidden act n_aux dropout = Inr enc"
    and run: "SpectrumEncoder_attention lib training draws enc x = Inr (h, a)"
  shows "length h = length x" "length a = length x"
    and "n < length x \<Longrightarrow> length (h ! n) = 256 \<and> length (a ! n) = 256"
    and "n < length x \<Longrightarrow> c < 256 \<Longrightarrow> sum_list (a ! n ! c) = 1"
proof -
  from run obtain a0 where
    d: "downsample lib training draws enc x = Inr (h, a0)" and a: "a = map (map softmax) a0"
    unfolding SpectrumEncoder_attention_def by (auto simp add: bindE_eq_Inr)
  note f = SpectrumEncoder_init_fields [OF init]
  have act: "blk_act (conv3 enc) = PReLU (replicate 512 (1 / 4))"
    using f(2) by (simp add: nn_PReLU_def)
  note sh = downsample_shape [OF lib act d]
  show "length h = length x" "length a = length x"
    using sh(1,2) by (simp_all add: a)
  have shn: "length (h ! n) = 256 \<and> length (a0 ! n) = 256
      \<and> list_all (\<lambda>row. row \<noteq> []) (a0 ! n)" if "n < length x"
    using sh(3) [OF that] f(1) by simp
  show "length (h ! n) = 256 \<and> length (a ! n) = 256" if "n < length x"
    using shn [OF that] that sh(2) by (simp add: a)
  show "sum_list (a ! n ! c) = 1" if "n < length x" "c < 256"
  proof -
    have "a0 ! n ! c \<noteq> []"
      using shn [OF that(1)] that(2) by (simp add: list_all_length)
    then show ?thesis
      using that shn [OF that(1)] sh(2) by (simp add: a softmax_sums_to_one)
  qed
qed

section \<open>Absent auxiliary features\<close>

lemma downsample_length:
  assumes "downsample lib training draws enc x = Inr (h, a)"
  shows "length h = length x" "length a = length x"
proof -
  from assms obtain x1 x2 x3 x4 x5 ha where
    x1: "conv_block_forward lib training (draws Conv1) (conv1 enc) (map (\<lambda>r. [r]) x) = Inr x1" and
    x2: "traverse (MaxPool1d_forward lib (pool1 enc)) x1 = Inr x2" and
    x3: "conv_block_forward lib training (draws Conv2) (conv2 enc) x2 = Inr x3" and
    x4: "traverse (MaxPool1d_forward lib (pool2 enc)) x3 = Inr x4" and
    x5: "conv_block_forward lib training (draws Conv3) (conv3 enc) x4 = Inr x5" and
    ha: "traverse split_half x5 = Inr ha" and
    h: "h = map fst ha" and a: "a = map snd ha"
    unfolding downsample_def by (auto simp add: bindE_eq_Inr)
  have "length ha = length x"
    using conv_block_forward_length [OF x1] traverse_length [OF x2]
      conv_block_forward_length [OF x3] traverse_length [OF x4]
      conv_block_forward_length [OF x5] traverse_length [OF ha] by simp
  then show "length h = length x" "length a = length x"
    by (simp_all add: h a)
qed

lemma attention_length:
  assumes "SpectrumEncoder_attention lib training draws enc x = Inr (h, a)"
  shows "length h = length x" "length a = length x"
proof -
  from assms obtain a0 where
    d: "downsample lib training draws enc x = Inr (h, a0)" and a: "a = map (map softmax) a0"
    unfolding SpectrumEncoder_attention_def by (auto simp add: bindE_eq_Inr)
  show "length h = length x" "length a = length x"
    using downsample_length [OF d] by (simp_all add: a)
qed

lemma attend_length:
  assumes "attend (hn, an) = Inr v" "length hn = length an"
  shows "length v = length hn"
proof -
  from assms(1) obtain m where m: "ew2 (*) hn an = Inr m" and v: "v = map sum_list m"
    unfolding attend_def by (auto simp add: bindE_eq_Inr)
  have "length m = length hn"
    using m assms(2) by (auto simp add: ew2_def broadcast_def dest!: traverse_length)
  then show ?thesis by (simp add: v)
qed

text \<open>The dense block starts with the affine layer of the width it was built for.\<close>

lemma MLP_loop_head:
  "foldl (\<lambda>layer i. bindE layer (\<lambda>ls. MLP_append theta ns act p ls i)) (Inr (l # ls0)) is = Inr m
     \<Longrightarrow> \<exists>rest. m = l # rest"
proof (induction "is" arbitrary: ls0)
  case Nil
  then show ?case by auto
next
  case (Cons i "is")
  show ?case
  proof (cases "MLP_append theta ns act p (l # ls0) i")
    case (Inl e)
    then show ?thesis using Cons.prems by (simp add: MLP_loop_fails)
  next
    case (Inr ls1)
    then obtain ls2 where "ls1 = l # ls2"
      by (auto simp add: MLP_append_def bindE_eq_Inr)
    then show ?thesis using Cons.prems Cons.IH [of ls2] Inr by simp
  qed
qed

lemma MLP_init_head:
  assumes "MLP_init theta n_in n_out n_hidden act p = Inr m"
  shows "\<exists>l rest. m = Linear l # rest \<and> in_features l = n_in"
proof -
  define act' where
    "act' = (case act of None \<Rightarrow> replicate (length n_hidden + 1) LeakyReLU | Some a \<Rightarrow> a)"
  define ns where "ns = [n_in] @ n_hidden @ [n_out]"
  have up: "[0..<length ns - 1] = 0 # [1..<length ns - 1]"
    by (simp add: ns_def upt_rec)
  from assms have run:
    "foldl (\<lambda>layer i. bindE layer (\<lambda>ls. MLP_append theta ns act' p ls i)) (Inr [])
       [0..<length ns - 1] = Inr m"
    unfolding MLP_init_def Let_def act'_def [symmetric] ns_def [symmetric]
    by (simp split: if_splits)
  show ?thesis
  proof (cases "MLP_append theta ns act' p [] 0")
    case (Inl e)
    then show ?thesis using run unfolding up by (simp add: MLP_loop_fails)
  next
    case (Inr ls1)
    then obtain d where
      ls1: "ls1 = [Linear (nn_Linear (theta 0) (ns ! 0) (ns ! 1)), Act (act' ! 0), Dropout d]"
      by (auto simp add: MLP_append_def bindE_eq_Inr)
    have "foldl (\<lambda>layer i. bindE layer (\<lambda>ls. MLP_append theta ns act' p ls i))
        (Inr (Linear (nn_Linear (theta 0) (ns ! 0) (ns ! 1)) # [Act (act' ! 0), Dropout d]))
        [1..<length ns - 1] = Inr m"
      using run Inr unfolding up ls1 by simp
    from MLP_loop_head [OF this] obtain rest where
      "m = Linear (nn_Linear (theta 0) (ns ! 0) (ns ! 1)) # rest" ..
    then show ?thesis by (simp add: nn_Linear_def ns_def)
  qed
qed

lemma linear_forward_wrong_width:
  assumes "X \<noteq> []" "list_all (\<lambda>row. length row \<noteq> in_features l) X"
  shows "MLP_forward training draws k (Linear l # rest) X = Inl RuntimeError"
proof -
  obtain r rs where X: "X = r # rs" using assms(1) by (cases X) auto
  then have "linear_forward l r = Inl RuntimeError"
    using assms(2) by (simp add: linear_forward_def)
  then show ?thesis by (simp add: X)
qed

lemma torch_cat_empty_columns:
  "length x1 = length x \<Longrightarrow> torch_cat x1 (map (\<lambda>r. []) x) = Inr x1"
  by (simp add: torch_cat_def) (rule nth_equalityI, simp_all)

lemma absent_aux_is_zero_width:
  "SpectrumEncoder_forward lib training draws g enc x AuxNone =
     SpectrumEncoder_forward lib training draws g enc x (Aux (map (\<lambda>r. []) x))"
proof (cases "SpectrumEncoder_attention lib training draws enc x")
  case (Inl e)
  then show ?thesis by (simp add: SpectrumEncoder_forward_def)
next
  case (Inr ha)
  obtain h a where ha: "ha = (h, a)" by (cases ha)
  note len = attention_length [OF Inr [unfolded ha]]
  show ?thesis
  proof (cases "traverse attend (zip h a)")
    case (Inl e)
    then show ?thesis using Inr ha by (simp add: SpectrumEncoder_forward_def)
  next
    case x1: (Inr x1)
    have "length x1 = length x"
      using traverse_length [OF x1] len by simp
    then show ?thesis
      using Inr ha x1 by (simp add: SpectrumEncoder_forward_def torch_cat_empty_columns)
  qed
qed

lemma traverse_error:
  "traverse f xs = Inl e \<Longrightarrow> \<exists>x \<in> set xs. f x = Inl e"
proof (induction xs)
  case Nil
  then show ?case by simp
next
  case (Cons x xs)
  then show ?case
    by (cases "f x"; cases "traverse f xs") simp_all
qed

lemma ew1_error: "ew1 g u v = Inl e \<Longrightarrow> e = RuntimeError"
  by (auto simp add: ew1_def broadcast_def traverse_pure case_prod_unfold split: if_splits)

lemma ew2_error: "ew2 g A B = Inl e \<Longrightarrow> e = RuntimeError"
  by (auto simp add: ew2_def broadcast_def split: if_splits dest!: traverse_error ew1_error)

lemma attend_error: "traverse attend ha = Inl e \<Longrightarrow> e = RuntimeError"
proof -
  assume "traverse attend ha = Inl e"
  then obtain p where "attend p = Inl e"
    by (auto dest!: traverse_error)
  then show ?thesis
    by (cases "ew2 (*) (fst p) (snd p)") (auto simp add: attend_def dest: ew2_error)
qed

lemma absent_aux_raises:
  assumes lib: "torch_shapes lib"
    and init: "SpectrumEncoder_init theta instr n_latent n_hidden act n_aux dropout = Inr enc"
    and aux: "0 < n_aux" and x: "x \<noteq> []"
    and run: "SpectrumEncoder_attention lib training draws enc x = Inr (h, a)"
  shows "SpectrumEncoder_forward lib training draws g enc x AuxNone = Inl RuntimeError"
proof (cases "traverse attend (zip h a)")
  case (Inl e)
  then show ?thesis using run attend_error [OF Inl] by (simp add: SpectrumEncoder_forward_def)
next
  case x1: (Inr x1)
  note sh = attention_shape [OF lib init run]
  have l1: "length x1 = length x"
    using traverse_length [OF x1] sh(1,2) by simp
  have "length (x1 ! n) = 256" if "n < length x" for n
  proof -
    have "attend (h ! n, a ! n) = Inr (x1 ! n)"
      using traverse_nth [OF x1, of n] that sh(1,2) by simp
    then show ?thesis
      using attend_length [of "h ! n" "a ! n" "x1 ! n"] sh(3) [OF that] by simp
  qed
  then have w: "list_all (\<lambda>row. length row \<noteq> 256 + n_aux) x1"
    using l1 aux by (simp add: list_all_length)
  from MLP_init_head [OF SpectrumEncoder_init_fields(3) [OF init]] obtain l rest where
    m: "enc_mlp enc = Linear l # rest" "in_features l = 256 + n_aux"
    by blast
  have "x1 \<noteq> []" using l1 x by auto
  then have "MLP_forward training (\<lambda>k. draws (EncoderMLP k)) 0 (enc_mlp enc) x1 = Inl RuntimeError"
    unfolding m(1) using w m(2) by (intro linear_forward_wrong_width) simp_all
  then show ?thesis
    using run x1 by (simp add: SpectrumEncoder_forward_def)
qed


section \<open>Runs on spectra of 56 bins\<close>

lemma traverse_map: "traverse f (map g xs) = traverse (\<lambda>x. f (g x)) xs"
  by (induction xs) simp_all

lemma traverse_pure_on:
  "(\<And>x. x \<in> set xs \<Longrightarrow> f x = Inr (g x)) \<Longrightarrow> traverse f xs = Inr (map g xs)"
  by (induction xs) simp_all

lemma positions_simps [simp]:
  "positions (row # f) = length row" "0 < n \<Longrightarrow> positions (replicate n row) = length row"
  by (simp_all add: positions_def split: list.splits) (cases n, simp_all)

text \<open>A block of the encoder and a pool on the shape-faithful library.\<close>

lemma stub_block:
  assumes X: "\<And>f. f \<in> set X \<Longrightarrow> length f = Cin \<and> positions f = P"
    and k: "k \<le> P + 2 * p" "P + 2 * p - k \<noteq> 0" and C: "1 < Cout"
  shows "conv_block_forward (stub_lib key) training draw
           \<lparr>blk_conv = \<lparr>in_channels = Cin, out_channels = Cout, kernel_size = k, padding = p\<rparr>,
            blk_norm = nm, blk_act = nn_PReLU Cout, blk_drop = 0\<rparr> X
       = Inr (map (\<lambda>f. replicate Cout (map (\<lambda>t. leaky (1 / 4) (key f t)) [0..<P + 2 * p - k + 1])) X)"
proof -
  define g where "g = (\<lambda>f. replicate Cout (map (key f) [0..<P + 2 * p - k + 1]))"
  define g' where
    "g' = (\<lambda>f. replicate Cout (map (\<lambda>t. leaky (1 / 4) (key f t)) [0..<P + 2 * p - k + 1]))"
  have c: "traverse (Conv1d_forward (stub_lib key)
        \<lparr>in_channels = Cin, out_channels = Cout, kernel_size = k, padding = p\<rparr>) X = Inr (map g X)"
    using X k by (intro traverse_pure_on) (simp add: stub_lib_def g_def)
  have pg: "positions (g f) \<noteq> 1" for f
    using C k by (simp add: g_def)
  have n: "traverse (InstanceNorm1d_forward (stub_lib key) nm) (map g X) = Inr (map g X)"
    unfolding traverse_map using pg by (simp add: stub_lib_def traverse_pure)
  have "act_forward_fmap (nn_PReLU Cout) (g f) = Inr (g' f)" for f
    using C by (simp add: nn_PReLU_def prelu_channels_def g_def g'_def comp_def)
  then have a: "traverse (act_forward_fmap (nn_PReLU Cout)) (map g X) = Inr (map g' X)"
    unfolding traverse_map by (simp add: traverse_pure)
  show ?thesis
    unfolding conv_block_forward_def
    by (simp add: c n a dropout_batch_quiet g'_def)
qed

lemma stub_pool:
  assumes "\<And>f. f \<in> set X \<Longrightarrow> positions f = P" and "k \<le> P + 2 * p"
  shows "traverse (MaxPool1d_forward (stub_lib key) \<lparr>pool_kernel_size = k, pool_padding = p\<rparr>) X
       = Inr (map (map (take ((P + 2 * p - k) div k + 1))) X)"
  using assms by (intro traverse_pure_on) (simp add: stub_lib_def)

lemma upt_two: "[0..<2] = [0, 1]"
  by (simp add: numeral_2_eq_2)

lemma map_const: "map (\<lambda>t. c) [0..<n] = replicate n c"
  by (simp add: map_replicate_const)

lemma lib1_downsample:
  assumes x: "\<And>r. r \<in> set x \<Longrightarrow> length r = 56"
  shows "downsample lib1 training draws (built_encoder theta instr n_latent n_aux) x
       = Inr (map (\<lambda>r. replicate 256 [0, ln 3]) x, map (\<lambda>r. replicate 256 [0, ln 3]) x)"
proof -
  define key where "key = (\<lambda>(f :: mat) (t :: nat). if t = 1 then ln 3 else 0 :: real)"
  define v where "v = (\<lambda>t :: nat. leaky (1 / 4) (if t = 1 then ln 3 else 0))"
  have v: "v 0 = 0" "v (Suc 0) = ln 3"
    by (simp_all add: v_def leaky_def)
  have lib: "lib1 = stub_lib key"
    by (simp add: lib1_def key_def)
  have "conv_block_forward (stub_lib key) training (draws Conv1)
        \<lparr>blk_conv = \<lparr>in_channels = 1, out_channels = 128, kernel_size = 5, padding = 2\<rparr>,
         blk_norm = 128, blk_act = nn_PReLU 128, blk_drop = 0\<rparr> (map (\<lambda>r. [r]) x)
      = Inr (map (\<lambda>f. replicate 128 (map (\<lambda>t. leaky (1 / 4) (key f t)) [0..<56 + 2 * 2 - 5 + 1]))
               (map (\<lambda>r. [r]) x))"
    by (rule stub_block [where P = 56]) (use x in auto)
  then have b1: "conv_block_forward lib1 training (draws Conv1)
        (conv1 (built_encoder theta instr n_latent n_aux)) (map (\<lambda>r. [r]) x)
      = Inr (map (\<lambda>r. replicate 128 (map v [0..<56])) x)"
    by (simp add: lib built_encoder_def key_def v_def comp_def)
  have "traverse (MaxPool1d_forward (stub_lib key) \<lparr>pool_kernel_size = 5, pool_padding = 2\<rparr>)
        (map (\<lambda>r. replicate 128 (map v [0..<56])) x)
      = Inr (map (map (take ((56 + 2 * 2 - 5) div 5 + 1)))
               (map (\<lambda>r. replicate 128 (map v [0..<56])) x))"
    by (rule stub_pool [where P = 56]) auto
  then have p1: "traverse (MaxPool1d_forward lib1 (pool1 (built_encoder theta instr n_latent n_aux)))
        (map (\<lambda>r. replicate 128 (map v [0..<56])) x)
      = Inr (map (\<lambda>r. replicate 128 (map v [0..<12])) x)"
    by (simp add: lib built_encoder_def comp_def take_map)
  have "conv_block_forward (stub_lib key) training (draws Conv2)
        \<lparr>blk_conv = \<lparr>in_channels = 128, out_channels = 256, kernel_size = 11, padding = 5\<rparr>,
         blk_norm = 256, blk_act = nn_PReLU 256, blk_drop = 0\<rparr>
        (map (\<lambda>r. replicate 128 (map v [0..<12])) x)
      = Inr (map (\<lambda>f. replicate 256 (map (\<lambda>t. leaky (1 / 4) (key f t)) [0..<12 + 2 * 5 - 11 + 1]))
               (map (\<lambda>r. replicate 128 (map v [0..<12])) x))"
    by (rule stub_block [where P = 12]) auto
  then have b2: "conv_block_forward lib1 training (draws Conv2)
        (conv2 (built_encoder theta instr n_latent n_aux))
        (map (\<lambda>r. replicate 128 (map v [0..<12])) x)
      = Inr (map (\<lambda>r. replicate 256 (map v [0..<12])) x)"
    by (simp add: lib built_encoder_def key_def v_def comp_def)
  have "traverse (MaxPool1d_forward (stub_lib key) \<lparr>pool_kernel_size = 11, pool_padding = 5\<rparr>)
        (map (\<lambda>r. replicate 256 (map v [0..<12])) x)
      = Inr (map (map (take ((12 + 2 * 5 - 11) div 11 + 1)))
               (map (\<lambda>r. replicate 256 (map v [0..<12])) x))"
    by (rule stub_pool [where P = 12]) auto
  then have p2: "traverse (MaxPool1d_forward lib1 (pool2 (built_encoder theta instr n_latent n_aux)))
        (map (\<lambda>r. replicate 256 (map v [0..<12])) x)
      = Inr (map (\<lambda>r. replicate 256 (map v [0..<2])) x)"
    by (simp add: lib built_encoder_def comp_def take_map upt_two)
  have "conv_block_forward (stub_lib key) training (draws Conv3)
        \<lparr>blk_conv = \<lparr>in_channels = 256, out_channels = 512, kernel_size = 21, padding = 10\<rparr>,
         blk_norm = 512, blk_act = nn_PReLU 512, blk_drop = 0\<rparr>
        (map (\<lambda>r. replicate 256 (map v [0..<2])) x)
      = Inr (map (\<lambda>f. replicate 512 (map (\<lambda>t. leaky (1 / 4) (key f t)) [0..<2 + 2 * 10 - 21 + 1]))
               (map (\<lambda>r. replicate 256 (map v [0..<2])) x))"
    by (rule stub_block [where P = 2]) auto
  then have b3: "conv_block_forward lib1 training (draws Conv3)
        (conv3 (built_encoder theta instr n_latent n_aux))
        (map (\<lambda>r. replicate 256 (map v [0..<2])) x)
      = Inr (map (\<lambda>r. replicate 512 (map v [0..<2])) x)"
    by (simp add: lib built_encoder_def key_def v_def comp_def upt_two)
  have sp: "traverse split_half (map (\<lambda>r. replicate 512 (map v [0..<2])) x)
      = Inr (map (\<lambda>r. (replicate 256 [0, ln 3], replicate 256 [0, ln 3])) x)"
    unfolding traverse_map
    by (simp add: split_half_def traverse_pure upt_two v)
  show ?thesis
    unfolding downsample_def b1 bindE_Inr p1 b2 p2 b3 sp
    by (simp add: comp_def)
qed

lemma softmax_example: "softmax [0, ln 3] = [1 / 4, 3 / 4]"
  by (simp add: softmax_def)

lemma lib1_attention:
  assumes "\<And>r. r \<in> set x \<Longrightarrow> length r = 56"
  shows "SpectrumEncoder_attention lib1 training draws (built_encoder theta instr n_latent n_aux) x
       = Inr (map (\<lambda>r. replicate 256 [0, ln 3]) x, map (\<lambda>r. replicate 256 [1 / 4, 3 / 4]) x)"
proof -
  have "downsample lib1 training draws (built_encoder theta instr n_latent n_aux) x
       = Inr (map (\<lambda>r. replicate 256 [0, ln 3]) x, map (\<lambda>r. replicate 256 [0, ln 3]) x)"
    using assms by (rule lib1_downsample)
  then show ?thesis
    by (simp add: SpectrumEncoder_attention_def softmax_example comp_def)
qed

lemma built_encoder_init:
  "SpectrumEncoder_init theta instr n_latent [] None n_aux 0
     = Inr (built_encoder theta instr n_latent n_aux)"
  by (simp add: SpectrumEncoder_init_def conv_blocks_def conv_blocks_append_def nn_Dropout_def
      MLP_init_def MLP_append_def built_encoder_def)

lemma stub_lib_shapes: "torch_shapes (stub_lib key)"
  by (auto simp add: torch_shapes_def stub_lib_def list_all_iff split: if_splits)

section \<open>The attention weights sum to one\<close>

lemma softmax_length [simp]: "length (softmax r) = length r"
  by (simp add: softmax_def)

lemma softmax_positive: "t < length r \<Longrightarrow> 0 < softmax r ! t"
proof -
  assume t: "t < length r"
  then have "r \<noteq> []" by auto
  then have "0 < (\<Sum>u\<leftarrow>r. exp u)" by (rule sum_list_exp_pos)
  then show ?thesis using t by (simp add: softmax_def)
qed

lemma attention_positions:
  assumes lib: "torch_shapes lib"
    and init: "SpectrumEncoder_init theta instr n_latent n_hidden act n_aux dropout = Inr enc"
    and run: "SpectrumEncoder_attention lib training draws enc x = Inr (h, a)"
  shows "\<exists>a0. downsample lib training draws enc x = Inr (h, a0)
          \<and> (\<forall>n < length x. \<forall>c < 256.
                a0 ! n ! c \<noteq> [] \<and> length (a ! n ! c) = length (a0 ! n ! c)
              \<and> (\<forall>t < length (a ! n ! c). 0 < a ! n ! c ! t))"
proof -
  from run obtain a0 where
    d: "downsample lib training draws enc x = Inr (h, a0)" and a: "a = map (map softmax) a0"
    unfolding SpectrumEncoder_attention_def by (auto simp add: bindE_eq_Inr)
  note f = SpectrumEncoder_init_fields [OF init]
  have act: "blk_act (conv3 enc) = PReLU (replicate 512 (1 / 4))"
    using f(2) by (simp add: nn_PReLU_def)
  note sh = downsample_shape [OF lib act d]
  have "a0 ! n ! c \<noteq> [] \<and> length (a ! n ! c) = length (a0 ! n ! c)
      \<and> (\<forall>t < length (a ! n ! c). 0 < a ! n ! c ! t)" if "n < length x" "c < 256" for n c
  proof -
    have l: "length (a0 ! n) = 256" "list_all (\<lambda>row. row \<noteq> []) (a0 ! n)"
      using sh(3) [OF that(1)] f(1) by simp_all
    have "a ! n ! c = softmax (a0 ! n ! c)"
      using that l(1) sh(2) by (simp add: a)
    moreover have "a0 ! n ! c \<noteq> []"
      using l that(2) by (simp add: list_all_length)
    ultimately show ?thesis
      by (simp add: softmax_positive)
  qed
  with d show ?thesis by blast
qed

text \<open>
  C9. For an encoder built by its constructor and every batch \<open>x\<close> on which the
  convolutional part succeeds, the attention weights (the softmax of the key half along
  the positions) have one entry per sample and 256 channels per sample, and the weights
  of every channel of every sample sum to 1; there is one positive weight for every
  position of the key half. (The library is assumed to return the shapes it documents.)
\<close>

theorem attention_sums_to_one:
  assumes "torch_shapes lib"
    and "SpectrumEncoder_init theta instr n_latent n_hidden act n_aux dropout = Inr enc"
    and "SpectrumEncoder_attention lib training draws enc x = Inr (h, a)"
  shows "length a = length x
     \<and> (\<forall>n < length x. length (a ! n) = 256 \<and> (\<forall>c < 256. sum_list (a ! n ! c) = 1))
     \<and> (\<exists>a0. downsample lib training draws enc x = Inr (h, a0)
          \<and> (\<forall>n < length x. \<forall>c < 256.
                a0 ! n ! c \<noteq> [] \<and> length (a ! n ! c) = length (a0 ! n ! c)
              \<and> (\<forall>t < length (a ! n ! c). 0 < a ! n ! c ! t)))"
  using attention_shape [OF assms] attention_positions [OF assms] by simp

theorem attention_sums_to_one_witness:
  "SpectrumEncoder_init theta0 (Inst instrument56) 2 [] None 0 0
     = Inr (built_encoder theta0 (Inst instrument56) 2 0)
   \<and> SpectrumEncoder_attention lib1 False draws0 (built_encoder theta0 (Inst instrument56) 2 0)
       [replicate 56 1] = Inr ([replicate 256 [0, ln 3]], [replicate 256 [1 / 4, 3 / 4]])
   \<and> length ([replicate 256 [1 / 4, 3 / 4 :: real]] ! 0) = 256
   \<and> sum_list ([replicate 256 [1 / 4, 3 / 4 :: real]] ! 0 ! 255) = 1
   \<and> length ([replicate 256 [1 / 4, 3 / 4 :: real]] ! 0 ! 255) = 2"
proof -
  have run: "SpectrumEncoder_attention lib1 False draws0 (built_encoder theta0 (Inst instrument56) 2 0)
       [replicate 56 1] = Inr ([replicate 256 [0, ln 3]], [replicate 256 [1 / 4, 3 / 4]])"
    using lib1_attention [of "[replicate 56 1]" False draws0 theta0 "Inst instrument56" 2 0]
    by simp
  have lib: "torch_shapes lib1"
    unfolding lib1_def by (rule stub_lib_shapes)
  from attention_sums_to_one [OF lib built_encoder_init run]
  have "length ([replicate 256 [1 / 4, 3 / 4 :: real]] ! 0) = 256
      \<and> sum_list ([replicate 256 [1 / 4, 3 / 4 :: real]] ! 0 ! 255) = 1"
    by simp
  then show ?thesis
    using run built_encoder_init [of theta0 "Inst instrument56" 2 0] by simp
qed

section \<open>Absent auxiliary features, on a spectrum the encoder accepts\<close>

lemma traverse_replicate:
  "f x = Inr y \<Longrightarrow> traverse f (replicate n x) = Inr (replicate n y)"
  by (induction n) simp_all

lemma lib1_pooled:
  "attend (replicate 256 [0, ln 3], replicate 256 [1 / 4, 3 / 4]) = Inr (replicate 256 (3 / 4 * ln 3))"
proof -
  have "ew1 (*) [0, ln 3] [1 / 4, 3 / 4] = Inr [0, 3 / 4 * ln 3]"
    by (simp add: ew1_def broadcast_def)
  then have "traverse (\<lambda>(x, y). ew1 (*) x y) (replicate 256 ([0, ln 3], [1 / 4, 3 / 4]))
      = Inr (replicate 256 [0, 3 / 4 * ln 3])"
    by (intro traverse_replicate) simp
  then show ?thesis
    by (simp add: attend_def ew2_def broadcast_def)
qed

lemma zero_weights:
  "length v = n \<Longrightarrow> linear_forward (nn_Linear (theta0 0) n 2) v = Inr [0, 0]"
  by (simp add: linear_forward_def nn_Linear_def theta0_def upt_two)

text \<open>
  The encoder the constructor builds, with all weights of its dense block zero, on one
  spectrum of 56 bins: without auxiliary features, and with one auxiliary feature that
  is absent or zero.
\<close>

lemma lib1_forward:
  "SpectrumEncoder_forward lib1 training draws g (built_encoder theta0 instr 2 0)
     [replicate 56 1] AuxNone = Inr ([[0, 0]], attention_hook_registered training g)"
  "SpectrumEncoder_forward lib1 training draws g (built_encoder theta0 instr 2 1)
     [replicate 56 1] AuxNone = Inl RuntimeError"
  "SpectrumEncoder_forward lib1 training draws g (built_encoder theta0 instr 2 1)
     [replicate 56 1] (Aux [[0]]) = Inr ([[0, 0]], attention_hook_registered training g)"
proof -
  have att: "SpectrumEncoder_attention lib1 training draws (built_encoder theta0 instr 2 n_aux)
      [replicate 56 1] = Inr ([replicate 256 [0, ln 3]], [replicate 256 [1 / 4, 3 / 4]])" for n_aux
    using lib1_attention [of "[replicate 56 1]" training draws theta0 instr 2 n_aux] by simp
  have mlp: "enc_mlp (built_encoder theta0 instr 2 n_aux)
      = [Linear (nn_Linear (theta0 0) (256 + n_aux) 2), Act Identity, Dropout 0]" for n_aux
    by (simp add: built_encoder_def)
  show "SpectrumEncoder_forward lib1 training draws g (built_encoder theta0 instr 2 0)
     [replicate 56 1] AuxNone = Inr ([[0, 0]], attention_hook_registered training g)"
    by (simp add: SpectrumEncoder_forward_def att lib1_pooled mlp zero_weights
        dropout_batch_quiet)
  show "SpectrumEncoder_forward lib1 training draws g (built_encoder theta0 instr 2 1)
     [replicate 56 1] AuxNone = Inl RuntimeError"
    by (simp add: SpectrumEncoder_forward_def att lib1_pooled mlp linear_forward_def
        nn_Linear_def)
  show "SpectrumEncoder_forward lib1 training draws g (built_encoder theta0 instr 2 1)
     [replicate 56 1] (Aux [[0]]) = Inr ([[0, 0]], attention_hook_registered training g)"
    by (simp add: SpectrumEncoder_forward_def att lib1_pooled mlp zero_weights torch_cat_def
        dropout_batch_quiet)
qed

text \<open>
  C3, as the code has it. For an encoder constructed with \<open>n_aux > 0\<close>, a forward call
  on a non-empty batch with the auxiliary features absent never returns a latent: the
  dense block was built for \<open>256 + n_aux\<close> inputs and is given the 256 pooled features,
  which raises the shape error of the first affine layer whenever the convolutional part
  succeeds. Absent features are not replaced by zeros; nothing is concatenated, as for
  auxiliary features with no column.
\<close>

theorem absent_aux_not_concatenated:
  assumes "torch_shapes lib"
    and "SpectrumEncoder_init theta instr n_latent n_hidden act n_aux dropout = Inr enc"
    and "0 < n_aux" and "x \<noteq> []"
  shows "isl (SpectrumEncoder_forward lib training draws g enc x AuxNone)
     \<and> (isl (SpectrumEncoder_attention lib training draws enc x)
        \<or> SpectrumEncoder_forward lib training draws g enc x AuxNone = Inl RuntimeError)
     \<and> SpectrumEncoder_forward lib training draws g enc x AuxNone =
         SpectrumEncoder_forward lib training draws g enc x (Aux (map (\<lambda>r. []) x))"
proof (cases "SpectrumEncoder_attention lib training draws enc x")
  case (Inl e)
  then show ?thesis
    using absent_aux_is_zero_width [of lib training draws g enc x]
    by (simp add: SpectrumEncoder_forward_def)
next
  case (Inr ha)
  obtain h a where "ha = (h, a)" by (cases ha)
  with Inr have "SpectrumEncoder_forward lib training draws g enc x AuxNone = Inl RuntimeError"
    using absent_aux_raises [OF assms] by simp
  then show ?thesis
    using absent_aux_is_zero_width [of lib training draws g enc x] by simp
qed

theorem absent_aux_counterexample:
  "SpectrumEncoder_init theta0 (Inst instrument56) 2 [] None 1 0
     = Inr (built_encoder theta0 (Inst instrument56) 2 1)
   \<and> SpectrumEncoder_forward lib1 False draws0 False (built_encoder theta0 (Inst instrument56) 2 1)
       [replicate 56 1] AuxNone = Inl RuntimeError
   \<and> SpectrumEncoder_forward lib1 False draws0 False (built_encoder theta0 (Inst instrument56) 2 1)
       [replicate 56 1] (Aux [[0]]) = Inr ([[0, 0]], False)"
  using built_encoder_init [of theta0 "Inst instrument56" 2 1]
    lib1_forward(2,3) [of False draws0 False "Inst instrument56"]
  by (simp add: attention_hook_registered_def)

theorem absent_aux_not_concatenated_witness:
  "isl (SpectrumEncoder_forward lib1 False draws0 False (built_encoder theta0 (Inst instrument56) 2 1)
          [replicate 56 1] AuxNone)
   \<and> SpectrumEncoder_forward lib1 False draws0 False (built_encoder theta0 (Inst instrument56) 2 1)
       [replicate 56 1] AuxNone = Inl RuntimeError
   \<and> SpectrumEncoder_forward lib1 False draws0 False (built_encoder theta0 (Inst instrument56) 2 1)
       [replicate 56 1] AuxNone =
     SpectrumEncoder_forward lib1 False draws0 False (built_encoder theta0 (Inst instrument56) 2 1)
       [replicate 56 1] (Aux [[]])"
proof -
  have "\<not> isl (SpectrumEncoder_attention lib1 False draws0
      (built_encoder theta0 (Inst instrument56) 2 1) [replicate 56 1])"
    using lib1_attention [of "[replicate 56 1]" False draws0 theta0 "Inst instrument56" 2 1]
    by simp
  moreover have "map (\<lambda>r. []) [replicate 56 (1 :: real)] = [[] :: real list]"
    by simp
  moreover have "0 < (1 :: nat)" "[replicate 56 (1 :: real)] \<noteq> []"
    by simp_all
  moreover have "torch_shapes lib1"
    unfolding lib1_def by (rule stub_lib_shapes)
  ultimately show ?thesis
    using absent_aux_not_concatenated [OF _ built_encoder_init [of theta0 "Inst instrument56" 2 1],
      of lib1 "[replicate 56 1]" False draws0 False]
    by metis
qed

section \<open>The gradient hook\<close>

text \<open>
  C4 (the code departs from it). The test of \<^verbatim>\<open>forward\<close> applies \<^verbatim>\<open>~\<close> to the mode
  flag: \<^verbatim>\<open>~True\<close> is \<open>-2\<close> and \<^verbatim>\<open>~False\<close> is \<open>-1\<close>, both truthy, so the hook is
  registered exactly when \<open>a\<close> requires a gradient, in training mode as well. The last two
  lines run \<^verbatim>\<open>forward\<close> in training mode, on the encoder that the constructor builds and
  a spectrum of 56 bins: a latent is returned and the hook is registered.
\<close>

theorem attention_hook_ignores_training:
  "py_invert True = - 2 \<and> py_invert False = - 1
   \<and> attention_hook_registered training a_requires_grad = a_requires_grad
   \<and> SpectrumEncoder_init theta0 (Inst instrument56) 2 [] None 0 0
       = Inr (built_encoder theta0 (Inst instrument56) 2 0)
   \<and> SpectrumEncoder_forward lib1 True draws0 True (built_encoder theta0 (Inst instrument56) 2 0)
       [replicate 56 1] AuxNone = Inr ([[0, 0]], True)"
proof -
  have h: "attention_hook_registered training a_requires_grad = a_requires_grad"
    for training a_requires_grad
    by (simp add: attention_hook_registered_def py_invert_def py_truthy_def)
  show ?thesis
    using built_encoder_init [of theta0 "Inst instrument56" 2 0]
      lib1_forward(1) [of True draws0 True "Inst instrument56"]
    by (simp add: h py_invert_def)
qed


section \<open>The loss under a permutation of the batch\<close>

lemma leaky_nonneg: "0 \<le> c \<Longrightarrow> leaky a c = c"
  by (simp add: leaky_def)

lemma lib2_downsample:
  assumes x: "\<And>r. r \<in> set x \<Longrightarrow> length r = 56 \<and> 0 \<le> hd r"
  shows "downsample lib2 training draws (built_encoder theta instr n_latent n_aux) x
       = Inr (map (\<lambda>r. replicate 256 [hd r, hd r]) x, map (\<lambda>r. replicate 256 [hd r, hd r]) x)"
proof -
  define key where "key = (\<lambda>(f :: mat) (t :: nat). hd (hd f))"
  have lib: "lib2 = stub_lib key"
    by (simp add: lib2_def key_def)
  have two: "replicate 2 c = [c, c]" for c :: real
    by (simp add: numeral_2_eq_2)
  have lk: "r \<in> set x \<Longrightarrow> leaky (1 / 4) (hd r) = hd r" for r
    using x by (simp add: leaky_nonneg)
  have "conv_block_forward (stub_lib key) training (draws Conv1)
        \<lparr>blk_conv = \<lparr>in_channels = 1, out_channels = 128, kernel_size = 5, padding = 2\<rparr>,
         blk_norm = 128, blk_act = nn_PReLU 128, blk_drop = 0\<rparr> (map (\<lambda>r. [r]) x)
      = Inr (map (\<lambda>f. replicate 128 (map (\<lambda>t. leaky (1 / 4) (key f t)) [0..<56 + 2 * 2 - 5 + 1]))
               (map (\<lambda>r. [r]) x))"
    by (rule stub_block [where P = 56]) (use x in auto)
  moreover have "map (\<lambda>f. replicate 128 (map (\<lambda>t. leaky (1 / 4) (key f t)) [0..<56 + 2 * 2 - 5 + 1]))
               (map (\<lambda>r. [r]) x) = map (\<lambda>r. replicate 128 (replicate 56 (hd r))) x"
    by (simp add: key_def map_const lk)
  ultimately have b1: "conv_block_forward lib2 training (draws Conv1)
        (conv1 (built_encoder theta instr n_latent n_aux)) (map (\<lambda>r. [r]) x)
      = Inr (map (\<lambda>r. replicate 128 (replicate 56 (hd r))) x)"
    by (simp add: lib built_encoder_def)
  have "traverse (MaxPool1d_forward (stub_lib key) \<lparr>pool_kernel_size = 5, pool_padding = 2\<rparr>)
        (map (\<lambda>r. replicate 128 (replicate 56 (hd r))) x)
      = Inr (map (map (take ((56 + 2 * 2 - 5) div 5 + 1)))
               (map (\<lambda>r. replicate 128 (replicate 56 (hd r))) x))"
    by (rule stub_pool [where P = 56]) auto
  then have p1: "traverse (MaxPool1d_forward lib2 (pool1 (built_encoder theta instr n_latent n_aux)))
        (map (\<lambda>r. replicate 128 (replicate 56 (hd r))) x)
      = Inr (map (\<lambda>r. replicate 128 (replicate 12 (hd r))) x)"
    by (simp add: lib built_encoder_def comp_def)
  have "conv_block_forward (stub_lib key) training (draws Conv2)
        \<lparr>blk_conv = \<lparr>in_channels = 128, out_channels = 256, kernel_size = 11, padding = 5\<rparr>,
         blk_norm = 256, blk_act = nn_PReLU 256, blk_drop = 0\<rparr>
        (map (\<lambda>r. replicate 128 (replicate 12 (hd r))) x)
      = Inr (map (\<lambda>f. replicate 256 (map (\<lambda>t. leaky (1 / 4) (key f t)) [0..<12 + 2 * 5 - 11 + 1]))
               (map (\<lambda>r. replicate 128 (replicate 12 (hd r))) x))"
    by (rule stub_block [where P = 12]) auto
  moreover have "map (\<lambda>f. replicate 256 (map (\<lambda>t. leaky (1 / 4) (key f t)) [0..<12 + 2 * 5 - 11 + 1]))
               (map (\<lambda>r. replicate 128 (replicate 12 (hd r))) x)
      = map (\<lambda>r. replicate 256 (replicate 12 (hd r))) x"
    by (simp add: key_def map_const lk)
  ultimately have b2: "conv_block_forward lib2 training (draws Conv2)
        (conv2 (built_encoder theta instr n_latent n_aux))
        (map (\<lambda>r. replicate 128 (replicate 12 (hd r))) x)
      = Inr (map (\<lambda>r. replicate 256 (replicate 12 (hd r))) x)"
    by (simp add: lib built_encoder_def)
  have "traverse (MaxPool1d_forward (stub_lib key) \<lparr>pool_kernel_size = 11, pool_padding = 5\<rparr>)
        (map (\<lambda>r. replicate 256 (replicate 12 (hd r))) x)
      = Inr (map (map (take ((12 + 2 * 5 - 11) div 11 + 1)))
               (map (\<lambda>r. replicate 256 (replicate 12 (hd r))) x))"
    by (rule stub_pool [where P = 12]) auto
  then have p2: "traverse (MaxPool1d_forward lib2 (pool2 (built_encoder theta instr n_latent n_aux)))
        (map (\<lambda>r. replicate 256 (replicate 12 (hd r))) x)
      = Inr (map (\<lambda>r. replicate 256 (replicate 2 (hd r))) x)"
    by (simp add: lib built_encoder_def comp_def two)
  have "conv_block_forward (stub_lib key) training (draws Conv3)
        \<lparr>blk_conv = \<lparr>in_channels = 256, out_channels = 512, kernel_size = 21, padding = 10\<rparr>,
         blk_norm = 512, blk_act = nn_PReLU 512, blk_drop = 0\<rparr>
        (map (\<lambda>r. replicate 256 (replicate 2 (hd r))) x)
      = Inr (map (\<lambda>f. replicate 512 (map (\<lambda>t. leaky (1 / 4) (key f t)) [0..<2 + 2 * 10 - 21 + 1]))
               (map (\<lambda>r. replicate 256 (replicate 2 (hd r))) x))"
    by (rule stub_block [where P = 2]) auto
  moreover have "map (\<lambda>f. replicate 512 (map (\<lambda>t. leaky (1 / 4) (key f t)) [0..<2 + 2 * 10 - 21 + 1]))
               (map (\<lambda>r. replicate 256 (replicate 2 (hd r))) x)
      = map (\<lambda>r. replicate 512 (replicate 2 (hd r))) x"
    by (simp add: key_def map_const lk two)
  ultimately have b3: "conv_block_forward lib2 training (draws Conv3)
        (conv3 (built_encoder theta instr n_latent n_aux))
        (map (\<lambda>r. replicate 256 (replicate 2 (hd r))) x)
      = Inr (map (\<lambda>r. replicate 512 (replicate 2 (hd r))) x)"
    by (simp add: lib built_encoder_def)
  have sp: "traverse split_half (map (\<lambda>r. replicate 512 (replicate 2 (hd r))) x)
      = Inr (map (\<lambda>r. (replicate 256 [hd r, hd r], replicate 256 [hd r, hd r])) x)"
    unfolding traverse_map
    by (simp add: split_half_def traverse_pure two)
  show ?thesis
    unfolding downsample_def b1 bindE_Inr p1 b2 p2 b3 sp
    by (simp add: comp_def)
qed

lemma softmax_pair: "softmax [c, c] = [1 / 2, 1 / 2]"
proof -
  have "exp c / (exp c + exp c) = 1 / 2"
    by (simp add: field_simps)
  then show ?thesis
    by (simp add: softmax_def)
qed

lemma lib2_pooled:
  "attend (replicate 256 [c, c], replicate 256 [1 / 2, 1 / 2]) = Inr (replicate 256 c)"
proof -
  have "ew1 (*) [c, c] [1 / 2, 1 / 2] = Inr [c / 2, c / 2]"
    by (simp add: ew1_def broadcast_def)
  then have "traverse (\<lambda>(x, y). ew1 (*) x y) (replicate 256 ([c, c], [1 / 2, 1 / 2]))
      = Inr (replicate 256 [c / 2, c / 2])"
    by (intro traverse_replicate) simp
  then show ?thesis
    by (simp add: attend_def ew2_def broadcast_def)
qed

lemma mean_weights:
  "linear_forward (nn_Linear (theta_mean 0) 256 1) (replicate 256 c) = Inr [c]"
proof -
  have "map (\<lambda>i. 1 / 256 * replicate 256 c ! i) [0..<256] = map (\<lambda>i. c / 256) [0..<256]"
    by (rule map_cong) simp_all
  then have "(\<Sum>i\<leftarrow>[0..<256]. 1 / 256 * replicate 256 c ! i) = c"
    by (simp add: map_const sum_list_replicate)
  then show ?thesis
    by (simp add: linear_forward_def nn_Linear_def theta_mean_def)
qed

lemma unit_weights:
  "linear_forward (nn_Linear (theta_one 0) 1 56) [c] = Inr (replicate 56 c)"
  by (simp add: linear_forward_def nn_Linear_def theta_one_def map_const)

text \<open>
  The autoencoder of 56 bins on spectra that begin with a value that is not negative:
  the latent of a spectrum is its first value, and its rest-frame reconstruction repeats
  that value in every bin.
\<close>

lemma traverse_identity: "traverse (act_forward Identity) X = Inr X"
  by (induction X) simp_all

lemma lib2_encode:
  assumes x: "\<And>r. r \<in> set x \<Longrightarrow> length r = 56 \<and> 0 \<le> hd r"
  shows "SpectrumEncoder_forward lib2 training draws g (built_encoder theta_mean instr 1 0) x AuxNone
       = Inr (map (\<lambda>r. [hd r]) x, attention_hook_registered training g)"
proof -
  have "downsample lib2 training draws (built_encoder theta_mean instr 1 0) x
       = Inr (map (\<lambda>r. replicate 256 [hd r, hd r]) x, map (\<lambda>r. replicate 256 [hd r, hd r]) x)"
    using x by (rule lib2_downsample)
  then have att: "SpectrumEncoder_attention lib2 training draws (built_encoder theta_mean instr 1 0) x
       = Inr (map (\<lambda>r. replicate 256 [hd r, hd r]) x, map (\<lambda>r. replicate 256 [1 / 2, 1 / 2]) x)"
    by (simp add: SpectrumEncoder_attention_def softmax_pair comp_def)
  have z: "zip (map (\<lambda>r. replicate 256 [hd r, hd r]) x) (map (\<lambda>r. replicate 256 [1 / 2, 1 / 2]) x)
      = map (\<lambda>r. (replicate 256 [hd r, hd r], replicate 256 [1 / 2, 1 / 2])) x"
    by (simp add: zip_map_map zip_same_conv_map)
  have pool: "traverse attend
        (zip (map (\<lambda>r. replicate 256 [hd r, hd r]) x) (map (\<lambda>r. replicate 256 [1 / 2, 1 / 2]) x))
      = Inr (map (\<lambda>r. replicate 256 (hd r)) x)"
    unfolding z traverse_map by (simp add: lib2_pooled traverse_pure)
  have mlp: "enc_mlp (built_encoder theta_mean instr 1 0)
      = [Linear (nn_Linear (theta_mean 0) 256 1), Act Identity, Dropout 0]"
    by (simp add: built_encoder_def)
  have lin: "traverse (linear_forward (nn_Linear (theta_mean 0) 256 1))
        (map (\<lambda>r. replicate 256 (hd r)) x) = Inr (map (\<lambda>r. [hd r]) x)"
    unfolding traverse_map by (rule traverse_pure_on) (rule mean_weights)
  show ?thesis
    by (simp add: SpectrumEncoder_forward_def att pool mlp lin traverse_identity
        dropout_batch_quiet del: One_nat_def)
qed

lemma lib2_decode:
  assumes x: "\<And>r. r \<in> set x \<Longrightarrow> 0 \<le> hd r"
  shows "BaseAutoencoder_decode lib training draws autoencoder56 (map (\<lambda>r. [hd r]) x)
       = Inr (map (\<lambda>r. replicate 56 (hd r)) x)"
proof -
  have lin: "traverse (linear_forward (nn_Linear (theta_one 0) 1 56)) (map (\<lambda>r. [hd r]) x)
      = Inr (map (\<lambda>r. replicate 56 (hd r)) x)"
    unfolding traverse_map by (rule traverse_pure_on) (rule unit_weights)
  have act: "traverse (act_forward LeakyReLU) (map (\<lambda>r. replicate 56 (hd r)) x)
      = Inr (map (\<lambda>r. replicate 56 (hd r)) x)"
    unfolding traverse_map using x
    by (intro traverse_pure_on) (simp add: leaky_nonneg)
  show ?thesis
    by (simp add: BaseAutoencoder_decode_def SpectrumDecoder_forward_def decode_def
        autoencoder56_def decoder56_def lin act dropout_batch_quiet del: One_nat_def)
qed

text \<open>
  With a redshift that is a number the grid handed to the interpolation has one row, so
  one row comes back: the reconstruction of the first sample. With one redshift per
  sample there is one row per sample.
\<close>

lemma lib2_forward:
  assumes x: "\<And>r. r \<in> set x \<Longrightarrow> length r = 56 \<and> 0 \<le> hd r"
  shows "BaseAutoencoder_forward lib2 training draws g autoencoder56 x InstNone (ZScalar z0) None AuxNone
       = Inr (take 1 (map (\<lambda>r. replicate 56 (hd r)) x))"
    and "BaseAutoencoder_forward lib2 training draws g autoencoder56 x InstNone (ZTensor zs) None AuxNone
       = Inr (take (length zs) (map (\<lambda>r. replicate 56 (hd r)) x))"
proof -
  have "SpectrumEncoder_forward lib2 training draws g
      (built_encoder theta_mean (Inst instrument56) 1 0) x AuxNone
      = Inr (map (\<lambda>r. [hd r]) x, attention_hook_registered training g)"
    using x by (rule lib2_encode)
  then have e: "encode lib2 training draws g autoencoder56 x AuxNone = Inr (map (\<lambda>r. [hd r]) x)"
    by (simp add: encode_def autoencoder56_def del: One_nat_def)
  have d: "BaseAutoencoder_decode lib2 training draws autoencoder56 (map (\<lambda>r. [hd r]) x)
       = Inr (map (\<lambda>r. replicate 56 (hd r)) x)"
    using x by (intro lib2_decode) simp
  have i: "enc_instrument (encoder autoencoder56) = Inst instrument56"
    "wave_rest (decoder autoencoder56) = wave56"
    by (simp_all add: autoencoder56_def built_encoder_def decoder56_def)
  have t: "transform lib2 (decoder autoencoder56) sp (Inst instrument56) z
      = bindE (wave_redshifted wave56 z) (\<lambda>wr. Inr (take (length wr) sp))" for sp z
    by (simp add: transform_def i instrument56_def lib2_def stub_lib_def)
  show "BaseAutoencoder_forward lib2 training draws g autoencoder56 x InstNone (ZScalar z0) None AuxNone
       = Inr (take 1 (map (\<lambda>r. replicate 56 (hd r)) x))"
    by (simp add: BaseAutoencoder_forward_def forward3_def e d i t wave_redshifted_def)
  show "BaseAutoencoder_forward lib2 training draws g autoencoder56 x InstNone (ZTensor zs) None AuxNone
       = Inr (take (length zs) (map (\<lambda>r. replicate 56 (hd r)) x))"
    by (simp add: BaseAutoencoder_forward_def forward3_def e d i t wave_redshifted_def)
qed

lemma spectrum56_simps:
  "length (spectrum56 c d) = 56" "hd (spectrum56 c d) = c"
  "replicate 56 c = spectrum56 c c"
  "map f (spectrum56 c d) = spectrum56 (f c) (f d)"
  "sum_list (spectrum56 c d) = c + 55 * d"
  "ew1 h (spectrum56 c d) (spectrum56 c' d') = Inr (spectrum56 (h c c') (h d d'))"
proof -
  show l: "length (spectrum56 c d) = 56" for c d :: real
    by (simp add: spectrum56_def)
  show "hd (spectrum56 c d) = c" "map f (spectrum56 c d) = spectrum56 (f c) (f d)"
    "sum_list (spectrum56 c d) = c + 55 * d"
    by (simp_all add: spectrum56_def sum_list_replicate)
  have "replicate (Suc 55) c = c # replicate 55 c"
    by (rule replicate_Suc)
  then show "replicate 56 c = spectrum56 c c"
    by (simp add: spectrum56_def)
  have "ew1 h (spectrum56 c d) (spectrum56 c' d')
      = Inr (map (\<lambda>(u, v). h u v) (zip (spectrum56 c d) (spectrum56 c' d')))"
    by (rule ew1_same_length) (simp add: l)
  then show "ew1 h (spectrum56 c d) (spectrum56 c' d') = Inr (spectrum56 (h c c') (h d d'))"
    by (simp add: spectrum56_def)
qed

text \<open>
  The loss of a batch of two such spectra, with weights that are all one: for a redshift
  that is a number both samples are compared with the reconstruction of the first; for
  one redshift per sample each is compared with its own.
\<close>

lemma lib2_loss:
  assumes "0 \<le> c1" "0 \<le> c2"
  shows "loss lib2 training draws g autoencoder56 [spectrum56 c1 d1, spectrum56 c2 d2]
           [spectrum56 1 1, spectrum56 1 1] InstNone (ZScalar 0) None AuxNone individual
       = loss_of [spectrum56 c1 d1, spectrum56 c2 d2] [spectrum56 1 1, spectrum56 1 1]
           [spectrum56 c1 c1] individual"
    and "loss lib2 training draws g autoencoder56 [spectrum56 c1 d1, spectrum56 c2 d2]
           [spectrum56 1 1, spectrum56 1 1] InstNone (ZTensor [0, 0]) None AuxNone individual
       = loss_of [spectrum56 c1 d1, spectrum56 c2 d2] [spectrum56 1 1, spectrum56 1 1]
           [spectrum56 c1 c1, spectrum56 c2 c2] individual"
proof -
  have "BaseAutoencoder_forward lib2 training draws g autoencoder56
      [spectrum56 c1 d1, spectrum56 c2 d2] InstNone (ZScalar 0) None AuxNone
      = Inr (take 1 (map (\<lambda>r. replicate 56 (hd r)) [spectrum56 c1 d1, spectrum56 c2 d2]))"
    by (rule lib2_forward(1)) (use assms in \<open>auto simp add: spectrum56_simps(1,2)\<close>)
  then have f1: "BaseAutoencoder_forward lib2 training draws g autoencoder56
      [spectrum56 c1 d1, spectrum56 c2 d2] InstNone (ZScalar 0) None AuxNone
      = Inr [spectrum56 c1 c1]"
    by (simp add: spectrum56_simps(2,3))
  have "BaseAutoencoder_forward lib2 training draws g autoencoder56
      [spectrum56 c1 d1, spectrum56 c2 d2] InstNone (ZTensor [0, 0]) None AuxNone
      = Inr (take (length [0 :: real, 0])
               (map (\<lambda>r. replicate 56 (hd r)) [spectrum56 c1 d1, spectrum56 c2 d2]))"
    by (rule lib2_forward(2)) (use assms in \<open>auto simp add: spectrum56_simps(1,2)\<close>)
  then have f2: "BaseAutoencoder_forward lib2 training draws g autoencoder56
      [spectrum56 c1 d1, spectrum56 c2 d2] InstNone (ZTensor [0, 0]) None AuxNone
      = Inr [spectrum56 c1 c1, spectrum56 c2 c2]"
    by (simp add: spectrum56_simps(2,3))
  show "loss lib2 training draws g autoencoder56 [spectrum56 c1 d1, spectrum56 c2 d2]
           [spectrum56 1 1, spectrum56 1 1] InstNone (ZScalar 0) None AuxNone individual
       = loss_of [spectrum56 c1 d1, spectrum56 c2 d2] [spectrum56 1 1, spectrum56 1 1]
           [spectrum56 c1 c1] individual"
    by (simp add: loss_def f1)
  show "loss lib2 training draws g autoencoder56 [spectrum56 c1 d1, spectrum56 c2 d2]
           [spectrum56 1 1, spectrum56 1 1] InstNone (ZTensor [0, 0]) None AuxNone individual
       = loss_of [spectrum56 c1 d1, spectrum56 c2 d2] [spectrum56 1 1, spectrum56 1 1]
           [spectrum56 c1 c1, spectrum56 c2 c2] individual"
    by (simp add: loss_def f2)
qed

lemma loss_of_56:
  "loss_of [spectrum56 c1 d1, spectrum56 c2 d2] [spectrum56 1 1, spectrum56 1 1]
     [spectrum56 e e] individual
   = Inr (if individual
          then PerSample [(1 / 2 * (c1 - e) ^ 2 + 55 * (1 / 2 * (d1 - e) ^ 2)) / 56,
                          (1 / 2 * (c2 - e) ^ 2 + 55 * (1 / 2 * (d2 - e) ^ 2)) / 56]
          else Summed ((1 / 2 * (c1 - e) ^ 2 + 55 * (1 / 2 * (d1 - e) ^ 2)) / 56
                       + (1 / 2 * (c2 - e) ^ 2 + 55 * (1 / 2 * (d2 - e) ^ 2)) / 56))"
  "loss_of [spectrum56 c1 d1, spectrum56 c2 d2] [spectrum56 1 1, spectrum56 1 1]
     [spectrum56 e1 e1, spectrum56 e2 e2] individual
   = Inr (if individual
          then PerSample [(1 / 2 * (c1 - e1) ^ 2 + 55 * (1 / 2 * (d1 - e1) ^ 2)) / 56,
                          (1 / 2 * (c2 - e2) ^ 2 + 55 * (1 / 2 * (d2 - e2) ^ 2)) / 56]
          else Summed ((1 / 2 * (c1 - e1) ^ 2 + 55 * (1 / 2 * (d1 - e1) ^ 2)) / 56
                       + (1 / 2 * (c2 - e2) ^ 2 + 55 * (1 / 2 * (d2 - e2) ^ 2)) / 56))"
  by (simp_all add: loss_of_def loss_ind_def ew2_def broadcast_def spectrum56_simps(1,4,5,6))

lemma decoder56_init: "SpectrumDecoder_init theta_one wave56 1 [] None 0 = Inr decoder56"
  by (simp add: SpectrumDecoder_init_def MLP_init_def MLP_append_def nn_Dropout_def
      decoder56_def wave56_def)

text \<open>
  C7 (the code departs from it). The claim is written for \<open>z = 0\<close>, a number. Then
  \<^verbatim>\<open>transform\<close> hands the interpolation a grid of one row, whatever the size of the batch
  (the first line), the interpolation returns one row, the reconstruction of the first
  sample, and \<^verbatim>\<open>_loss\<close> broadcasts that row against every sample: each sample is compared
  with the reconstruction of the first sample of the batch, so that the loss of a sample
  depends on which sample comes first.

  The remaining lines run the code on the autoencoder that the constructors build for 56
  bins, one latent and no auxiliary feature, in evaluation mode, on the batch of the
  spectra \<open>(1, 0, \<dots>, 0)\<close> and \<open>(2, 2, \<dots>, 2)\<close> with weights that are all one. The loss
  per sample is \<open>[55/112, 1/2]\<close>; on the batch with the two samples exchanged it is
  \<open>[0, 221/112]\<close>, which is not \<open>[1/2, 55/112]\<close>, and the summed loss goes from \<open>111/112\<close>
  to \<open>221/112\<close>. With one redshift per sample, \<open>z = [0, 0]\<close>, the same batch gives
  \<open>[55/112, 0]\<close> and, exchanged, \<open>[0, 55/112]\<close>: there the samples are independent.
\<close>

theorem loss_not_permuted:
  "wave_redshifted wave (ZScalar z0) = Inr [map (\<lambda>v. v * (1 + z0)) wave]
   \<and> SpectrumEncoder_init theta_mean (Inst instrument56) 1 [] None 0 0
       = Inr (built_encoder theta_mean (Inst instrument56) 1 0)
   \<and> SpectrumDecoder_init theta_one wave56 1 [] None 0 = Inr decoder56
   \<and> BaseAutoencoder_init (built_encoder theta_mean (Inst instrument56) 1 0) decoder56
       = Inr autoencoder56
   \<and> is_perm [1, 0] 2
   \<and> loss lib2 False draws0 False autoencoder56 [spectrum56 1 0, spectrum56 2 2]
        [spectrum56 1 1, spectrum56 1 1] InstNone (ZScalar 0) None AuxNone True
       = Inr (PerSample [55 / 112, 1 / 2])
   \<and> loss lib2 False draws0 False autoencoder56 (permute [1, 0] [spectrum56 1 0, spectrum56 2 2])
        (permute [1, 0] [spectrum56 1 1, spectrum56 1 1]) InstNone (ZScalar 0) None AuxNone True
       = Inr (PerSample [0, 221 / 112])
   \<and> permute [1, 0] [55 / 112, 1 / 2 :: real] = [1 / 2, 55 / 112]
   \<and> loss lib2 False draws0 False autoencoder56 [spectrum56 1 0, spectrum56 2 2]
        [spectrum56 1 1, spectrum56 1 1] InstNone (ZScalar 0) None AuxNone False
       = Inr (Summed (111 / 112))
   \<and> loss lib2 False draws0 False autoencoder56 (permute [1, 0] [spectrum56 1 0, spectrum56 2 2])
        (permute [1, 0] [spectrum56 1 1, spectrum56 1 1]) InstNone (ZScalar 0) None AuxNone False
       = Inr (Summed (221 / 112))
   \<and> loss lib2 False draws0 False autoencoder56 [spectrum56 1 0, spectrum56 2 2]
        [spectrum56 1 1, spectrum56 1 1] InstNone (ZTensor [0, 0]) None AuxNone True
       = Inr (PerSample [55 / 112, 0])
   \<and> loss lib2 False draws0 False autoencoder56 (permute [1, 0] [spectrum56 1 0, spectrum56 2 2])
        (permute [1, 0] [spectrum56 1 1, spectrum56 1 1]) InstNone (ZTensor [0, 0]) None AuxNone True
       = Inr (PerSample [0, 55 / 112])"
proof -
  have p: "permute [1, 0] [a, b] = [b, a]" for a b :: 'a
    by (simp add: permute_def)
  have "is_perm [1, 0] 2"
    by (simp add: is_perm_def upt_two)
  moreover have "BaseAutoencoder_init (built_encoder theta_mean (Inst instrument56) 1 0) decoder56
       = Inr autoencoder56"
    by (simp add: BaseAutoencoder_init_def built_encoder_def decoder56_def autoencoder56_def)
  moreover have "loss lib2 False draws0 False autoencoder56 [spectrum56 1 0, spectrum56 2 2]
        [spectrum56 1 1, spectrum56 1 1] InstNone (ZScalar 0) None AuxNone True
       = Inr (PerSample [55 / 112, 1 / 2])"
    by (simp add: lib2_loss(1) loss_of_56(1))
  moreover have "loss lib2 False draws0 False autoencoder56 [spectrum56 2 2, spectrum56 1 0]
        [spectrum56 1 1, spectrum56 1 1] InstNone (ZScalar 0) None AuxNone True
       = Inr (PerSample [0, 221 / 112])"
    by (simp add: lib2_loss(1) loss_of_56(1))
  moreover have "loss lib2 False draws0 False autoencoder56 [spectrum56 1 0, spectrum56 2 2]
        [spectrum56 1 1, spectrum56 1 1] InstNone (ZScalar 0) None AuxNone False
       = Inr (Summed (111 / 112))"
    by (simp add: lib2_loss(1) loss_of_56(1))
  moreover have "loss lib2 False draws0 False autoencoder56 [spectrum56 2 2, spectrum56 1 0]
        [spectrum56 1 1, spectrum56 1 1] InstNone (ZScalar 0) None AuxNone False
       = Inr (Summed (221 / 112))"
    by (simp add: lib2_loss(1) loss_of_56(1))
  moreover have "loss lib2 False draws0 False autoencoder56 [spectrum56 1 0, spectrum56 2 2]
        [spectrum56 1 1, spectrum56 1 1] InstNone (ZTensor [0, 0]) None AuxNone True
       = Inr (PerSample [55 / 112, 0])"
    by (simp add: lib2_loss(2) loss_of_56(2))
  moreover have "loss lib2 False draws0 False autoencoder56 [spectrum56 2 2, spectrum56 1 0]
        [spectrum56 1 1, spectrum56 1 1] InstNone (ZTensor [0, 0]) None AuxNone True
       = Inr (PerSample [0, 55 / 112])"
    by (simp add: lib2_loss(2) loss_of_56(2))
  ultimately show ?thesis
    unfolding p
    by (simp add: wave_redshifted_def built_encoder_init decoder56_init del: One_nat_def)
qed

end
